theory Spec2Isabelle
  imports Main "HOL-Library.Signed_Division" "HOL-Library.AList"
begin

section \<open>The proof-generation service of the Umbra prover\<close>

text \<open>
  A shallow embedding of the Go prover package (\<^verbatim>\<open>prover/main.go\<close>, \<^verbatim>\<open>prover/cache.go\<close>,
  \<^verbatim>\<open>prover/rate_limiter.go\<close>) and of the recency comparator of the circom circuits.
  Go strings are byte strings (\<^typ>\<open>string\<close>), \<^verbatim>\<open>int64\<close> request fields and
  \<^verbatim>\<open>time.Time\<close> readings are \<^typ>\<open>int\<close> (nanoseconds since the epoch for times), and the
  64-bit wrap-around is written out where the code computes with \<^verbatim>\<open>int\<close> and
  \<^verbatim>\<open>time.Duration\<close>. Calls into gnark, gnark-crypto, \<^verbatim>\<open>crypto/sha256\<close> and
  \<^verbatim>\<open>encoding/json\<close> are parameters of the model.
\<close>

subsection \<open>Requests and responses\<close>

text \<open>\<^verbatim>\<open>type ProofRequest struct\<close>: ten decimal strings and two \<^verbatim>\<open>int64\<close> timestamps.
  A JSON field that is absent is the zero value of its type.\<close>

record ProofRequest =
  MinAmount :: string
  RecipientKeyX :: string
  RecipientKeyY :: string
  MaxBlockAge :: string
  CurrentTime :: int
  ActualAmount :: string
  SenderKeyX :: string
  SenderKeyY :: string
  PaymentTime :: int
  SignatureR8X :: string
  SignatureR8Y :: string
  SignatureS :: string

text \<open>\<^verbatim>\<open>type ProofResponse struct\<close>.\<close>

record ProofResponse =
  Proof :: string
  PublicInputs :: "string list"
  GenerationTime :: int

subsection \<open>Input validation\<close>

text \<open>\<^verbatim>\<open>isValidNumeric\<close>: the loop ranges over the runes of \<^verbatim>\<open>s\<close>. Every byte of a
  multi-byte or invalid UTF-8 sequence yields a rune above \<^verbatim>\<open>'9'\<close>, so the test on runes
  and the test on bytes reject the same strings.\<close>

fun isValidNumeric_loop :: "string \<Rightarrow> bool" where
  "isValidNumeric_loop [] = True"
| "isValidNumeric_loop (c # cs) =
     (if (of_char c :: nat) < 48 \<or> (of_char c :: nat) > 57 then False
      else isValidNumeric_loop cs)"

definition isValidNumeric :: "string \<Rightarrow> bool" where
  "isValidNumeric s = (if s = [] then False else isValidNumeric_loop s)"

text \<open>\<^verbatim>\<open>validateProofRequest\<close>; \<open>now\<close> is \<^verbatim>\<open>time.Now().Unix()\<close>. The result is the Go
  \<^verbatim>\<open>error\<close>: \<open>None\<close> is \<^verbatim>\<open>nil\<close>, \<open>Some msg\<close> the error with that message. The two
  reads \<^verbatim>\<open>req.MinAmount[0]\<close> and \<^verbatim>\<open>req.ActualAmount[0]\<close> are reached only for non-empty
  strings, the empty ones having returned above.\<close>

definition validateProofRequest :: "int \<Rightarrow> ProofRequest \<Rightarrow> string option" where
  "validateProofRequest now req =
    (if MinAmount req = [] then Some ''minAmount is required''
     else if RecipientKeyX req = [] then Some ''recipientKeyX is required''
     else if RecipientKeyY req = [] then Some ''recipientKeyY is required''
     else if ActualAmount req = [] then Some ''actualAmount is required''
     else if SenderKeyX req = [] then Some ''senderKeyX is required''
     else if SenderKeyY req = [] then Some ''senderKeyY is required''
     else if SignatureR8X req = [] then Some ''signatureR8x is required''
     else if SignatureR8Y req = [] then Some ''signatureR8y is required''
     else if SignatureS req = [] then Some ''signatureS is required''
     else if length (MinAmount req) > 100 then Some ''minAmount too long (max 100 chars)''
     else if length (RecipientKeyX req) > 100 then Some ''recipientKeyX too long (max 100 chars)''
     else if length (RecipientKeyY req) > 100 then Some ''recipientKeyY too long (max 100 chars)''
     else if isValidNumeric (MinAmount req) = False then Some ''minAmount must be numeric''
     else if isValidNumeric (ActualAmount req) = False then Some ''actualAmount must be numeric''
     else if isValidNumeric (MaxBlockAge req) = False then Some ''maxBlockAge must be numeric''
     else if MinAmount req = ''0'' \<or> hd (MinAmount req) = CHR ''-''
       then Some ''minAmount must be positive''
     else if ActualAmount req = ''0'' \<or> hd (ActualAmount req) = CHR ''-''
       then Some ''actualAmount must be positive''
     else if CurrentTime req < now - 300 \<or> CurrentTime req > now + 60
       then Some ''currentTime must be within last 5 minutes''
     else if PaymentTime req < now - 300 \<or> PaymentTime req > now + 60
       then Some ''paymentTime must be within last 5 minutes''
     else if PaymentTime req > CurrentTime req then Some ''paymentTime cannot be in the future''
     else None)"

text \<open>The non-negative integer a string of decimal digits stands for
  (\<^verbatim>\<open>big.Int.SetString(s, 10)\<close> on a digits-only string).\<close>

fun decimal_acc :: "nat \<Rightarrow> string \<Rightarrow> nat" where
  "decimal_acc acc [] = acc"
| "decimal_acc acc (c # cs) = decimal_acc (10 * acc + (of_char c - 48)) cs"

definition decimal :: "string \<Rightarrow> nat" where
  "decimal s = decimal_acc 0 s"

text \<open>\<^verbatim>\<open>fmt.Sprintf("%d", n)\<close> for an \<^verbatim>\<open>int64\<close>.\<close>

definition digit_char :: "nat \<Rightarrow> char" where
  "digit_char d = ''0123456789'' ! d"

fun showNat :: "nat \<Rightarrow> string" where
  "showNat n =
     (if n < 10 then [digit_char n] else showNat (n div 10) @ [digit_char (n mod 10)])"

declare showNat.simps [simp del]

definition Sprintf_d :: "int \<Rightarrow> string" where
  "Sprintf_d i = (if i < 0 then CHR ''-'' # showNat (nat (- i)) else showNat (nat i))"

subsection \<open>Machine arithmetic and time\<close>

text \<open>\<^verbatim>\<open>int\<close> (on the 64-bit targets the service is built for), \<^verbatim>\<open>int64\<close> and
  \<^verbatim>\<open>time.Duration\<close> wrap around at 64 bits; Go's \<^verbatim>\<open>/\<close> truncates towards zero.\<close>

definition wrap64 :: "int \<Rightarrow> int" where
  "wrap64 x = signed_take_bit 63 x"

definition maxDuration :: int where
  "maxDuration = 2 ^ 63 - 1"

definition minDuration :: int where
  "minDuration = - (2 ^ 63)"

text \<open>\<^verbatim>\<open>t.Sub(u)\<close> of package \<^verbatim>\<open>time\<close>: the difference in nanoseconds, saturating at the
  ends of \<^verbatim>\<open>time.Duration\<close>.\<close>

definition time_Sub :: "int \<Rightarrow> int \<Rightarrow> int" where
  "time_Sub t u =
     (let d = t - u in
      if d < minDuration then minDuration else if d > maxDuration then maxDuration else d)"

text \<open>\<^verbatim>\<open>t.Unix()\<close>, and \<^verbatim>\<open>d.Milliseconds()\<close>.\<close>

definition Unix :: "int \<Rightarrow> int" where
  "Unix t = t div 1000000000"

definition Milliseconds :: "int \<Rightarrow> int" where
  "Milliseconds d = d sdiv 1000000"

definition Minute :: int where
  "Minute = 60 * 1000000000"

definition Hour :: int where
  "Hour = 60 * Minute"

subsection \<open>Rate limiter (\<^verbatim>\<open>rate_limiter.go\<close>)\<close>

record TokenBucket =
  tokens :: int
  lastRefill :: int

record RateLimiter =
  buckets :: "string \<rightharpoonup> TokenBucket"
  maxRate :: int
  period :: int
  cleanupInterval :: int

definition NewRateLimiter :: "int \<Rightarrow> int \<Rightarrow> RateLimiter" where
  "NewRateLimiter mr p =
     \<lparr>buckets = Map.empty, maxRate = mr, period = p, cleanupInterval = 5 * Minute\<rparr>"

text \<open>\<^verbatim>\<open>Allow\<close>. \<open>createNow\<close> is the reading of \<^verbatim>\<open>time.Now()\<close> stored in a bucket that is
  created by this call, \<open>now\<close> the reading taken for the refill. The result is \<open>None\<close>
  where the Go code panics (integer division by a zero \<^verbatim>\<open>period\<close>).\<close>

definition Allow :: "RateLimiter \<Rightarrow> string \<Rightarrow> int \<Rightarrow> int \<Rightarrow> (bool \<times> RateLimiter) option" where
  "Allow rl ip createNow now =
     (let bucket = (case buckets rl ip of
                      None \<Rightarrow> \<lparr>tokens = maxRate rl, lastRefill = createNow\<rparr>
                    | Some b \<Rightarrow> b);
          elapsed = time_Sub now (lastRefill bucket)
      in if period rl = 0 then None
         else
           (let tokensToAdd = wrap64 (wrap64 (elapsed sdiv period rl) * maxRate rl);
                bucket1 =
                  (if tokensToAdd > 0
                   then (let t = wrap64 (tokens bucket + tokensToAdd)
                         in \<lparr>tokens = (if t > maxRate rl then maxRate rl else t),
                             lastRefill = now\<rparr>)
                   else bucket)
            in if tokens bucket1 > 0
               then Some (True,
                      rl\<lparr>buckets := (buckets rl)(ip \<mapsto> bucket1\<lparr>tokens := tokens bucket1 - 1\<rparr>)\<rparr>)
               else Some (False, rl\<lparr>buckets := (buckets rl)(ip \<mapsto> bucket1)\<rparr>)))"

text \<open>A run of \<^verbatim>\<open>Allow\<close> calls by one client. \<open>createNow\<close> is the reading a call
  stores when it has to create the bucket, and the list holds the reading each call takes
  for its refill. The answers are collected in order.\<close>

fun Allow_calls ::
  "RateLimiter \<Rightarrow> string \<Rightarrow> int \<Rightarrow> int list \<Rightarrow> (bool list \<times> RateLimiter) option" where
  "Allow_calls rl ip createNow [] = Some ([], rl)"
| "Allow_calls rl ip createNow (t # ts) =
     (case Allow rl ip createNow t of
        None \<Rightarrow> None
      | Some (ok, rl1) \<Rightarrow>
          (case Allow_calls rl1 ip createNow ts of
             None \<Rightarrow> None
           | Some (oks, rl2) \<Rightarrow> Some (ok # oks, rl2)))"

text \<open>One tick of the \<^verbatim>\<open>cleanup\<close> goroutine of the rate limiter.\<close>

definition RateLimiter_cleanup :: "int \<Rightarrow> RateLimiter \<Rightarrow> RateLimiter" where
  "RateLimiter_cleanup now rl =
     rl\<lparr>buckets := (\<lambda>ip. case buckets rl ip of
                         None \<Rightarrow> None
                       | Some bucket \<Rightarrow>
                           if time_Sub now (lastRefill bucket) > 10 * Minute then None
                           else Some bucket)\<rparr>"

subsection \<open>Libraries the service calls\<close>

text \<open>The values a \<^verbatim>\<open>frontend.Variable\<close> of the assignment holds: the handler stores the
  request's strings and \<^verbatim>\<open>int64\<close>s as they are.\<close>

datatype Variable = Str string | I64 int

text \<open>\<^verbatim>\<open>type PaymentCircuit struct\<close>, over the type of its variables: \<^typ>\<open>Variable\<close> in
  an assignment, a field element (its canonical representative) in a solved witness.\<close>

record 'v PaymentCircuit =
  MinAmount :: 'v
  RecipientKeyX :: 'v
  RecipientKeyY :: 'v
  MaxBlockAge :: 'v
  CurrentTime :: 'v
  ActualAmount :: 'v
  SenderKeyX :: 'v
  SenderKeyY :: 'v
  PaymentTime :: 'v
  SignatureR8X :: 'v
  SignatureR8Y :: 'v
  SignatureS :: 'v

text \<open>
  What the service takes from outside \<^verbatim>\<open>package main\<close>, as parameters:
  \<^item> \<open>RecipientKey\<close>: the field \<^verbatim>\<open>req.RecipientKey\<close> that \<^verbatim>\<open>cache.go\<close> reads;
    \<^verbatim>\<open>ProofRequest\<close> as declared in \<^verbatim>\<open>main.go\<close> has no field of that name;
  \<^item> \<open>sha256_hex\<close>: \<^verbatim>\<open>hex.EncodeToString\<close> of \<^verbatim>\<open>sha256.Sum256\<close>;
  \<^item> \<open>big_SetString\<close>: the value of a \<^verbatim>\<open>big.Int\<close> after \<^verbatim>\<open>SetString(s, 10)\<close>, whose
    success flag the code drops;
  \<^item> \<open>mimc_Sum\<close>: \<^verbatim>\<open>hash.MIMC_BN254\<close>, the digest after the given \<^verbatim>\<open>Write\<close>s (their
    error results are dropped by the code);
  \<^item> \<open>eddsa_Verify\<close>: \<^verbatim>\<open>pubKey.Verify\<close> of gnark-crypto on the key \<open>(X, Y)\<close>, the
    signature \<open>(R.X, R.Y, S)\<close> and the message;
  \<^item> \<open>NewWitness\<close>, \<open>groth16_Prove\<close> (with the randomness it draws), \<open>witness_Public\<close>,
    \<open>groth16_Verify\<close> (\<open>True\<close> for a \<^verbatim>\<open>nil\<close> error) and \<open>json_Marshal\<close>; \<open>None\<close> is
    a non-\<^verbatim>\<open>nil\<close> error.
\<close>

record ('w, 'pf, 'pw) env =
  RecipientKey :: "ProofRequest \<Rightarrow> string"
  sha256_hex :: "string \<Rightarrow> string"
  big_SetString :: "string \<Rightarrow> int"
  mimc_Sum :: "nat list list \<Rightarrow> nat list"
  eddsa_Verify :: "int \<times> int \<Rightarrow> int \<times> int \<times> nat list \<Rightarrow> nat list \<Rightarrow> string + bool"
  NewWitness :: "Variable PaymentCircuit \<Rightarrow> 'w option"
  groth16_Prove :: "'w \<Rightarrow> nat \<Rightarrow> 'pf option"
  witness_Public :: "'w \<Rightarrow> 'pw option"
  groth16_Verify :: "'pf \<Rightarrow> 'pw \<Rightarrow> bool"
  json_Marshal :: "'pf \<Rightarrow> string option"

subsection \<open>Proof cache (\<^verbatim>\<open>cache.go\<close>)\<close>

text \<open>\<^verbatim>\<open>type CachedProof struct\<close>. The file declares \<^verbatim>\<open>PublicInputs\<close> as a \<^verbatim>\<open>string\<close>
  and copies the response's \<^verbatim>\<open>[]string\<close> into it and back; the model gives the field
  the type of what is copied.\<close>

record CachedProof =
  Proof :: string
  PublicInputs :: "string list"
  GeneratedAt :: int
  AccessCount :: int

text \<open>\<^verbatim>\<open>type ProofCache struct\<close>. The Go map is a list of entries with distinct keys; the
  order of the list is the order in which a \<^verbatim>\<open>range\<close> loop visits the map, which Go
  leaves open.\<close>

record ProofCache =
  cache :: "(string \<times> CachedProof) list"
  maxSize :: int
  ttl :: int

definition NewProofCache :: "int \<Rightarrow> int \<Rightarrow> ProofCache" where
  "NewProofCache ms t = \<lparr>cache = [], maxSize = ms, ttl = t\<rparr>"

definition generateCacheKey :: "('w, 'pf, 'pw) env \<Rightarrow> ProofRequest \<Rightarrow> string" where
  "generateCacheKey e req =
     (let data = ProofRequest.MinAmount req @ RecipientKey e req @ ProofRequest.MaxBlockAge req
      in sha256_hex e data)"

text \<open>\<^verbatim>\<open>Get\<close>; \<open>now\<close> is the reading inside \<^verbatim>\<open>time.Since\<close>. It returns the response of
  a hit and the cache with the entry's access count incremented.\<close>

definition Get ::
  "('w, 'pf, 'pw) env \<Rightarrow> int \<Rightarrow> ProofCache \<Rightarrow> ProofRequest \<Rightarrow> ProofResponse option \<times> ProofCache" where
  "Get e now pc req =
     (let key = generateCacheKey e req in
      case map_of (cache pc) key of
        None \<Rightarrow> (None, pc)
      | Some cached \<Rightarrow>
          if time_Sub now (GeneratedAt cached) > ttl pc then (None, pc)
          else (Some \<lparr>ProofResponse.Proof = CachedProof.Proof cached,
                      ProofResponse.PublicInputs = CachedProof.PublicInputs cached,
                      GenerationTime = 0\<rparr>,
                pc\<lparr>cache := AList.update key
                        (cached\<lparr>AccessCount := wrap64 (AccessCount cached + 1)\<rparr>) (cache pc)\<rparr>))"

text \<open>\<^verbatim>\<open>evictLRU\<close>: the loop keeps the key of the entry generated strictly before every
  entry visited earlier and before \<open>now\<close>.\<close>

fun evictLRU_loop :: "(string \<times> CachedProof) list \<Rightarrow> string \<times> int \<Rightarrow> string \<times> int" where
  "evictLRU_loop [] acc = acc"
| "evictLRU_loop ((key, cached) # rest) (oldestKey, oldestTime) =
     (if GeneratedAt cached < oldestTime then evictLRU_loop rest (key, GeneratedAt cached)
      else evictLRU_loop rest (oldestKey, oldestTime))"

definition evictLRU :: "int \<Rightarrow> ProofCache \<Rightarrow> ProofCache" where
  "evictLRU now pc =
     (let oldestKey = fst (evictLRU_loop (cache pc) ([], now)) in
      if oldestKey = [] then pc else pc\<lparr>cache := AList.delete oldestKey (cache pc)\<rparr>)"

text \<open>\<^verbatim>\<open>Set\<close>; \<open>evictNow\<close> and \<open>setNow\<close> are the readings of \<^verbatim>\<open>time.Now()\<close> in
  \<^verbatim>\<open>evictLRU\<close> and in the new entry.\<close>

definition Set ::
  "('w, 'pf, 'pw) env \<Rightarrow> int \<Rightarrow> int \<Rightarrow> ProofCache \<Rightarrow> ProofRequest \<Rightarrow> ProofResponse \<Rightarrow> ProofCache" where
  "Set e evictNow setNow pc req resp =
     (let key = generateCacheKey e req;
          pc1 = (if int (length (cache pc)) \<ge> maxSize pc then evictLRU evictNow pc else pc)
      in pc1\<lparr>cache := AList.update key
                 \<lparr>CachedProof.Proof = ProofResponse.Proof resp,
                  CachedProof.PublicInputs = ProofResponse.PublicInputs resp,
                  GeneratedAt = setNow, AccessCount = 1\<rparr> (cache pc1)\<rparr>)"

text \<open>One tick of the \<^verbatim>\<open>cleanup\<close> goroutine of the cache: every expired entry is deleted.\<close>

definition ProofCache_cleanup :: "int \<Rightarrow> ProofCache \<Rightarrow> ProofCache" where
  "ProofCache_cleanup now pc =
     pc\<lparr>cache := fold (\<lambda>(key, cached) m.
                        if time_Sub now (GeneratedAt cached) > ttl pc then AList.delete key m
                        else m)
                    (cache pc) (cache pc)\<rparr>"

subsection \<open>Signature pre-verification\<close>

text \<open>\<^verbatim>\<open>x.Bytes()\<close> of a \<^verbatim>\<open>big.Int\<close>: the big-endian bytes of the absolute value, none
  for zero.\<close>

fun nat_Bytes :: "nat \<Rightarrow> nat list" where
  "nat_Bytes n = (if n = 0 then [] else nat_Bytes (n div 256) @ [n mod 256])"

declare nat_Bytes.simps [simp del]

definition big_Bytes :: "int \<Rightarrow> nat list" where
  "big_Bytes x = nat_Bytes (nat \<bar>x\<bar>)"

definition preVerifySignature :: "('w, 'pf, 'pw) env \<Rightarrow> ProofRequest \<Rightarrow> string option" where
  "preVerifySignature e req =
     (let senderX = big_SetString e (ProofRequest.SenderKeyX req);
          senderY = big_SetString e (ProofRequest.SenderKeyY req);
          r8x = big_SetString e (ProofRequest.SignatureR8X req);
          r8y = big_SetString e (ProofRequest.SignatureR8Y req);
          s = big_SetString e (ProofRequest.SignatureS req);
          actualAmount = big_SetString e (ProofRequest.ActualAmount req);
          recipientX = big_SetString e (ProofRequest.RecipientKeyX req);
          recipientY = big_SetString e (ProofRequest.RecipientKeyY req);
          paymentTime = ProofRequest.PaymentTime req;
          messageHash = mimc_Sum e
            [big_Bytes actualAmount, big_Bytes senderX, big_Bytes senderY,
             big_Bytes recipientX, big_Bytes recipientY, big_Bytes paymentTime]
      in case eddsa_Verify e (senderX, senderY) (r8x, r8y, big_Bytes s) messageHash of
           Inl err \<Rightarrow> Some (''signature verification error: '' @ err)
         | Inr isValid \<Rightarrow> if isValid then None else Some ''invalid EdDSA signature'')"

subsection \<open>The circuit of the Go prover\<close>

text \<open>The scalar field of BN254, over which the circuit is compiled.\<close>

definition fr_modulus :: nat where
  "fr_modulus = 21888242871839275222246405745257275088548364400416034343698204186575808495617"

text \<open>\<^verbatim>\<open>api.Sub\<close> is subtraction in the field; \<^verbatim>\<open>api.AssertIsLessOrEqual(v, bound)\<close> is
  satisfied when \<open>v \<le> bound\<close> as integers.\<close>

definition api_Sub :: "nat \<Rightarrow> nat \<Rightarrow> nat" where
  "api_Sub a b = (a + (fr_modulus - b mod fr_modulus)) mod fr_modulus"

definition AssertIsLessOrEqual :: "nat \<Rightarrow> nat \<Rightarrow> bool" where
  "AssertIsLessOrEqual v bound = (v \<le> bound)"

text \<open>\<^verbatim>\<open>Define\<close>: whether a solved witness satisfies the constraints the method declares.
  \<open>mimc\<close> is the in-circuit MiMC of the written variables and \<open>eddsa\<close> the in-circuit
  \<^verbatim>\<open>eddsa.Verify\<close> on the signature \<open>(R.X, R.Y, S)\<close>, the message and the key \<open>(X, Y)\<close>.\<close>

definition Define ::
  "(nat list \<Rightarrow> nat) \<Rightarrow> (nat \<times> nat \<times> nat \<Rightarrow> nat \<Rightarrow> nat \<times> nat \<Rightarrow> bool) \<Rightarrow> nat PaymentCircuit \<Rightarrow> bool" where
  "Define mimc eddsa circuit =
     (let amountOk = AssertIsLessOrEqual (MinAmount circuit) (ActualAmount circuit);
          timeDiff = api_Sub (CurrentTime circuit) (PaymentTime circuit);
          timeOk = AssertIsLessOrEqual timeDiff (MaxBlockAge circuit);
          messageHash = mimc [ActualAmount circuit, SenderKeyX circuit, SenderKeyY circuit,
                              RecipientKeyX circuit, RecipientKeyY circuit, PaymentTime circuit];
          publicKey = (SenderKeyX circuit, SenderKeyY circuit);
          signature = (SignatureR8X circuit, SignatureR8Y circuit, SignatureS circuit)
      in amountOk \<and> timeOk \<and> eddsa signature messageHash publicKey)"

subsection \<open>The circom circuit (\<^verbatim>\<open>payment_proof_optimized.circom\<close>)\<close>

text \<open>The comparators of circomlib the template instantiates. \<^verbatim>\<open>LessThan(n)\<close> feeds
  \<open>in[0] + 2\<^sup>n - in[1]\<close> to \<^verbatim>\<open>Num2Bits(n+1)\<close>, which has no solution for a value of more
  than \<open>n + 1\<close> bits (\<open>None\<close>), and outputs one minus bit \<open>n\<close>; \<^verbatim>\<open>GreaterEqThan(n)\<close> is
  \<^verbatim>\<open>LessThan(n)\<close> on \<open>in[1]\<close> and \<open>in[0] + 1\<close>.\<close>

definition LessThan :: "nat \<Rightarrow> nat \<Rightarrow> nat \<Rightarrow> nat option" where
  "LessThan n in0 in1 =
     (let x = (in0 + 2 ^ n + (fr_modulus - in1 mod fr_modulus)) mod fr_modulus in
      if x < 2 ^ (n + 1) then Some (1 - (x div 2 ^ n) mod 2) else None)"

definition GreaterEqThan :: "nat \<Rightarrow> nat \<Rightarrow> nat \<Rightarrow> nat option" where
  "GreaterEqThan n in0 in1 = LessThan n in1 ((in0 + 1) mod fr_modulus)"

record PaymentProofSignals =
  minAmount :: nat
  recipientHash :: nat
  maxBlockAge :: nat
  currentTime :: nat
  actualAmount :: nat
  senderPubKeyX :: nat
  senderPubKeyY :: nat
  recipientPubKeyX :: nat
  recipientPubKeyY :: nat
  paymentTime :: nat
  R8x :: nat
  R8y :: nat
  S :: nat

text \<open>\<^verbatim>\<open>template PaymentProofOptimized\<close>: the output \<open>valid\<close>, or \<open>None\<close> when the witness
  cannot be computed. \<open>poseidon\<close> is circomlib's \<^verbatim>\<open>Poseidon\<close> and \<open>eddsaPoseidon\<close> its
  \<^verbatim>\<open>EdDSAPoseidonVerifier\<close> on \<open>(Ax, Ay)\<close>, \<open>(R8x, R8y, S)\<close> and \<open>M\<close>.\<close>

definition PaymentProofOptimized ::
  "(nat list \<Rightarrow> nat) \<Rightarrow> (nat \<times> nat \<Rightarrow> nat \<times> nat \<times> nat \<Rightarrow> nat \<Rightarrow> bool) \<Rightarrow> PaymentProofSignals \<Rightarrow> nat option" where
  "PaymentProofOptimized poseidon eddsaPoseidon sig =
     (if GreaterEqThan 64 (actualAmount sig) (minAmount sig) = Some 1 then
        (let timeDiff = api_Sub (currentTime sig) (paymentTime sig) in
         if LessThan 64 timeDiff (maxBlockAge sig) = Some 1 then
           if poseidon [recipientPubKeyX sig, recipientPubKeyY sig] = recipientHash sig then
             (let M = poseidon [actualAmount sig, senderPubKeyX sig, senderPubKeyY sig,
                                recipientPubKeyX sig, recipientPubKeyY sig, paymentTime sig]
              in if eddsaPoseidon (senderPubKeyX sig, senderPubKeyY sig)
                      (R8x sig, R8y sig, S sig) M
                 then Some 1 else None)
           else None
         else None)
      else None)"

subsection \<open>The request handler\<close>

text \<open>What \<^verbatim>\<open>c.BindJSON\<close> makes of the request body.\<close>

datatype payload = Malformed | Bound ProofRequest

text \<open>The JSON body of a response: \<^verbatim>\<open>gin.H{"error": msg}\<close> or a \<^verbatim>\<open>ProofResponse\<close>.\<close>

datatype body = ErrorBody string | ProofBody ProofResponse

text \<open>The library calls a run of the handler makes, in order.\<close>

datatype call = CallPreVerifySignature | CallNewWitness | CallProve | CallPublic | CallVerify
  | CallMarshal

text \<open>What one run of the handler reads from its surroundings: the clock at each
  \<^verbatim>\<open>time.Now()\<close> or \<^verbatim>\<open>time.Since\<close> whose value is used, and the prover's randomness.\<close>

record reads =
  startTime :: int
  validateNow :: int
  getNow :: int
  doneNow :: int
  evictNow :: int
  setNow :: int
  entropy :: nat

definition assignment :: "ProofRequest \<Rightarrow> Variable PaymentCircuit" where
  "assignment req =
     \<lparr>MinAmount = Str (ProofRequest.MinAmount req),
      RecipientKeyX = Str (ProofRequest.RecipientKeyX req),
      RecipientKeyY = Str (ProofRequest.RecipientKeyY req),
      MaxBlockAge = Str (ProofRequest.MaxBlockAge req),
      CurrentTime = I64 (ProofRequest.CurrentTime req),
      ActualAmount = Str (ProofRequest.ActualAmount req),
      SenderKeyX = Str (ProofRequest.SenderKeyX req),
      SenderKeyY = Str (ProofRequest.SenderKeyY req),
      PaymentTime = I64 (ProofRequest.PaymentTime req),
      SignatureR8X = Str (ProofRequest.SignatureR8X req),
      SignatureR8Y = Str (ProofRequest.SignatureR8Y req),
      SignatureS = Str (ProofRequest.SignatureS req)\<rparr>"

definition publicInputs :: "ProofRequest \<Rightarrow> string list" where
  "publicInputs req =
     [ProofRequest.MinAmount req, ProofRequest.RecipientKeyX req, ProofRequest.RecipientKeyY req,
      ProofRequest.MaxBlockAge req, Sprintf_d (ProofRequest.CurrentTime req)]"

text \<open>\<^verbatim>\<open>generateProofHandler\<close>: the status and body written to the client, the cache
  afterwards, and the library calls made. Logging and metrics are left out.\<close>

definition generateProofHandler ::
  "('w, 'pf, 'pw) env \<Rightarrow> reads \<Rightarrow> ProofCache \<Rightarrow> payload \<Rightarrow> (nat \<times> body) \<times> ProofCache \<times> call list" where
  "generateProofHandler e rd pc pl =
     (case pl of
        Malformed \<Rightarrow> ((400, ErrorBody ''Invalid request format''), pc, [])
      | Bound req \<Rightarrow>
     (case validateProofRequest (Unix (validateNow rd)) req of
        Some err \<Rightarrow> ((400, ErrorBody err), pc, [])
      | None \<Rightarrow>
     (case Get e (getNow rd) pc req of
        (Some cached, pc1) \<Rightarrow> ((200, ProofBody cached), pc1, [])
      | (None, pc1) \<Rightarrow>
     (case preVerifySignature e req of
        Some err \<Rightarrow>
          ((400, ErrorBody (''Invalid signature: '' @ err)), pc1, [CallPreVerifySignature])
      | None \<Rightarrow>
     (case NewWitness e (assignment req) of
        None \<Rightarrow>
          ((500, ErrorBody ''witness creation failed''), pc1,
           [CallPreVerifySignature, CallNewWitness])
      | Some witness \<Rightarrow>
     (case groth16_Prove e witness (entropy rd) of
        None \<Rightarrow>
          ((500, ErrorBody ''proof generation failed''), pc1,
           [CallPreVerifySignature, CallNewWitness, CallProve])
      | Some proof \<Rightarrow>
     (case witness_Public e witness of
        None \<Rightarrow>
          ((500, ErrorBody ''public witness extraction failed''), pc1,
           [CallPreVerifySignature, CallNewWitness, CallProve, CallPublic])
      | Some publicWitness \<Rightarrow>
     (if groth16_Verify e proof publicWitness = False then
          ((500, ErrorBody ''generated proof is invalid''), pc1,
           [CallPreVerifySignature, CallNewWitness, CallProve, CallPublic, CallVerify])
      else
     (case json_Marshal e proof of
        None \<Rightarrow>
          ((500, ErrorBody ''proof serialization failed''), pc1,
           [CallPreVerifySignature, CallNewWitness, CallProve, CallPublic, CallVerify,
            CallMarshal])
      | Some proofBytes \<Rightarrow>
          (let generationTime = Milliseconds (time_Sub (doneNow rd) (startTime rd));
               response = \<lparr>ProofResponse.Proof = proofBytes,
                           ProofResponse.PublicInputs = publicInputs req,
                           GenerationTime = generationTime\<rparr>
           in ((200, ProofBody response), Set e (evictNow rd) (setNow rd) pc1 req response,
               [CallPreVerifySignature, CallNewWitness, CallProve, CallPublic, CallVerify,
                CallMarshal])))))))))))"

subsection \<open>Cache states the service can reach, and verified proofs\<close>

text \<open>The cache starts empty and changes only in the handler and in the cleanup tick.\<close>

inductive reachable :: "('w, 'pf, 'pw) env \<Rightarrow> ProofCache \<Rightarrow> bool" for e :: "('w, 'pf, 'pw) env" where
  start: "reachable e (NewProofCache ms t)"
| request: "reachable e pc \<Longrightarrow> generateProofHandler e rd pc pl = (out, pc', tr) \<Longrightarrow> reachable e pc'"
| tick: "reachable e pc \<Longrightarrow> reachable e (ProofCache_cleanup now pc)"

text \<open>A serialized proof passed the sanity check: it is the serialization of a proof that
  \<^verbatim>\<open>groth16.Prove\<close> returned for a witness and that \<^verbatim>\<open>groth16.Verify\<close> accepted against
  that witness's public part.\<close>

definition sanity_verified :: "('w, 'pf, 'pw) env \<Rightarrow> string \<Rightarrow> bool" where
  "sanity_verified e proofBytes =
     (\<exists>a witness rnd proof publicWitness.
        NewWitness e a = Some witness \<and> groth16_Prove e witness rnd = Some proof \<and>
        witness_Public e witness = Some publicWitness \<and>
        groth16_Verify e proof publicWitness \<and> json_Marshal e proof = Some proofBytes)"

text \<open>Every cached proof passed the sanity check.\<close>

definition all_verified :: "('w, 'pf, 'pw) env \<Rightarrow> ProofCache \<Rightarrow> bool" where
  "all_verified e pc = list_all (\<lambda>(key, cached). sanity_verified e (CachedProof.Proof cached)) (cache pc)"

subsection \<open>From a request to the values of the circuit's variables\<close>

text \<open>The field element gnark assigns to a variable: a string of decimal digits is read
  in base ten and reduced, an \<^verbatim>\<open>int64\<close> is reduced.\<close>

definition field_of_string :: "string \<Rightarrow> nat" where
  "field_of_string s = decimal s mod fr_modulus"

definition field_of_int64 :: "int \<Rightarrow> nat" where
  "field_of_int64 i = nat (i mod int fr_modulus)"

definition witness_values :: "ProofRequest \<Rightarrow> nat PaymentCircuit" where
  "witness_values req =
     \<lparr>MinAmount = field_of_string (ProofRequest.MinAmount req),
      RecipientKeyX = field_of_string (ProofRequest.RecipientKeyX req),
      RecipientKeyY = field_of_string (ProofRequest.RecipientKeyY req),
      MaxBlockAge = field_of_string (ProofRequest.MaxBlockAge req),
      CurrentTime = field_of_int64 (ProofRequest.CurrentTime req),
      ActualAmount = field_of_string (ProofRequest.ActualAmount req),
      SenderKeyX = field_of_string (ProofRequest.SenderKeyX req),
      SenderKeyY = field_of_string (ProofRequest.SenderKeyY req),
      PaymentTime = field_of_int64 (ProofRequest.PaymentTime req),
      SignatureR8X = field_of_string (ProofRequest.SignatureR8X req),
      SignatureR8Y = field_of_string (ProofRequest.SignatureR8Y req),
      SignatureS = field_of_string (ProofRequest.SignatureS req)\<rparr>"

subsection \<open>Concrete requests and surroundings\<close>

text \<open>The request of the circuit's own test (\<^verbatim>\<open>test_circuit.js\<close>, "should verify valid
  payment proof"): a payment of 1500000 made 50 seconds before the claim.\<close>

definition sample_request :: ProofRequest where
  "sample_request =
     \<lparr>ProofRequest.MinAmount = ''1000000'',
      ProofRequest.RecipientKeyX = ''12345678901234567890123456789012'',
      ProofRequest.RecipientKeyY = ''98765432109876543210987654321098'',
      ProofRequest.MaxBlockAge = ''60'',
      ProofRequest.CurrentTime = 1700000000,
      ProofRequest.ActualAmount = ''1500000'',
      ProofRequest.SenderKeyX = ''11111111111111111111111111111111'',
      ProofRequest.SenderKeyY = ''22222222222222222222222222222222'',
      ProofRequest.PaymentTime = 1699999950,
      ProofRequest.SignatureR8X = ''33333333333333333333333333333333'',
      ProofRequest.SignatureR8Y = ''44444444444444444444444444444444'',
      ProofRequest.SignatureS = ''55555555555555555555555555555555''\<rparr>"

text \<open>The same payment made exactly \<^verbatim>\<open>maxBlockAge\<close> seconds before the claim.\<close>

definition boundary_request :: ProofRequest where
  "boundary_request = sample_request\<lparr>ProofRequest.PaymentTime := 1699999940\<rparr>"

text \<open>The boundary payment under a given sender key \<open>(sx, sy)\<close> and signature
  \<open>(r8x, r8y, s)\<close>.\<close>

definition signed_boundary_request ::
  "string \<Rightarrow> string \<Rightarrow> string \<Rightarrow> string \<Rightarrow> string \<Rightarrow> ProofRequest" where
  "signed_boundary_request sx sy r8x r8y s =
     boundary_request\<lparr>ProofRequest.SenderKeyX := sx, ProofRequest.SenderKeyY := sy,
                      ProofRequest.SignatureR8X := r8x, ProofRequest.SignatureR8Y := r8y,
                      ProofRequest.SignatureS := s\<rparr>"

text \<open>A sender key that is no number and a signature scalar of 101 characters.\<close>

definition malformed_key_request :: ProofRequest where
  "malformed_key_request =
     sample_request\<lparr>ProofRequest.SenderKeyX := ''not-a-number'',
                    ProofRequest.SignatureS := replicate 101 (CHR ''9'')\<rparr>"

text \<open>A second claim with the public key-fields of the first, made five seconds later for
  another payment by another sender.\<close>

definition second_request :: ProofRequest where
  "second_request =
     sample_request\<lparr>ProofRequest.CurrentTime := 1700000005,
                    ProofRequest.ActualAmount := ''2500000'',
                    ProofRequest.SenderKeyX := ''66666666666666666666666666666666'',
                    ProofRequest.PaymentTime := 1700000001,
                    ProofRequest.SignatureR8X := ''77777777777777777777777777777777''\<rparr>"

text \<open>The second claim with a zero \<^verbatim>\<open>actualAmount\<close>.\<close>

definition zero_amount_request :: ProofRequest where
  "zero_amount_request = second_request\<lparr>ProofRequest.ActualAmount := ''0''\<rparr>"

text \<open>The second claim with its \<^verbatim>\<open>signatureR8x\<close> left empty.\<close>

definition empty_signature_request :: ProofRequest where
  "empty_signature_request = second_request\<lparr>ProofRequest.SignatureR8X := []\<rparr>"

text \<open>Stand-ins for the libraries, enough to run the handler on the requests above: the
  recipient key is the two coordinates joined, the hash is the identity, the signature
  check accepts the one \<open>R.X\<close> of \<open>sample_request\<close>, the witness is the assignment, and
  every witness is proved, verified and serialized.\<close>

definition sample_env :: "(Variable PaymentCircuit, string, string list) env" where
  "sample_env =
     \<lparr>RecipientKey = (\<lambda>req. ProofRequest.RecipientKeyX req @ ProofRequest.RecipientKeyY req),
      sha256_hex = (\<lambda>data. data),
      big_SetString = (\<lambda>s. int (decimal s)),
      mimc_Sum = concat,
      eddsa_Verify = (\<lambda>publicKey signature messageHash.
                        Inr (fst signature = 33333333333333333333333333333333)),
      NewWitness = Some,
      groth16_Prove = (\<lambda>witness rnd. Some ''groth16-proof''),
      witness_Public = (\<lambda>witness. Some []),
      groth16_Verify = (\<lambda>proof publicWitness. True),
      json_Marshal = Some\<rparr>"

text \<open>The same with a prover that finds the constraints unsatisfied.\<close>

definition unsat_env :: "(Variable PaymentCircuit, string, string list) env" where
  "unsat_env = sample_env\<lparr>groth16_Prove := (\<lambda>witness rnd. None)\<rparr>"

text \<open>The same with a verifier that rejects the proof it is given.\<close>

definition reject_env :: "(Variable PaymentCircuit, string, string list) env" where
  "reject_env = sample_env\<lparr>groth16_Verify := (\<lambda>proof publicWitness. False)\<rparr>"

text \<open>Clock readings of a run that starts at 1700000000 s and takes 120 ms, and of a run
  five seconds later.\<close>

definition sample_reads :: reads where
  "sample_reads =
     \<lparr>startTime = 1700000000000000000, validateNow = 1700000000000000100,
      getNow = 1700000000000000200, doneNow = 1700000000120000000,
      evictNow = 1700000000120000100, setNow = 1700000000120000200, entropy = 7\<rparr>"

definition later_reads :: reads where
  "later_reads =
     \<lparr>startTime = 1700000005000000000, validateNow = 1700000005000000100,
      getNow = 1700000005000000200, doneNow = 1700000005120000000,
      evictNow = 1700000005120000100, setNow = 1700000005120000200, entropy = 8\<rparr>"

text \<open>Clock readings of a run 400 seconds after the first.\<close>

definition stale_reads :: reads where
  "stale_reads =
     \<lparr>startTime = 1700000400000000000, validateNow = 1700000400000000100,
      getNow = 1700000400000000200, doneNow = 1700000400120000000,
      evictNow = 1700000400120000100, setNow = 1700000400120000200, entropy = 9\<rparr>"

text \<open>The cache after \<open>sample_request\<close> has been served from an empty cache.\<close>

definition warm_cache :: ProofCache where
  "warm_cache =
     \<lparr>cache = [(''10000001234567890123456789012345678901298765432109876543210987654321098'' @ ''60'',
                 \<lparr>CachedProof.Proof = ''groth16-proof'',
                  CachedProof.PublicInputs =
                    [''1000000'', ''12345678901234567890123456789012'',
                     ''98765432109876543210987654321098'', ''60'', ''1700000000''],
                  GeneratedAt = 1700000000120000200, AccessCount = 1\<rparr>)],
      maxSize = 1000, ttl = Hour\<rparr>"

section \<open>Properties\<close>

subsection \<open>Evaluating the model on numerals\<close>

lemma showNat_numeral:
  "showNat (numeral k) =
     (if (numeral k :: nat) < 10 then [digit_char (numeral k)]
      else showNat (numeral k div 10) @ [digit_char (numeral k mod 10)])"
  by (rule showNat.simps)

lemma showNat_small: "showNat 0 = ''0''" "showNat 1 = ''1''" "showNat (Suc 0) = ''1''"
  by (simp_all add: showNat.simps digit_char_def)

lemmas request_defs = sample_request_def boundary_request_def malformed_key_request_def
  second_request_def empty_signature_request_def zero_amount_request_def
  signed_boundary_request_def

lemmas surroundings_defs = sample_env_def unsat_env_def reject_env_def sample_reads_def
  later_reads_def stale_reads_def warm_cache_def NewProofCache_def

lemmas eval_defs = generateProofHandler_def validateProofRequest_def isValidNumeric_def Unix_def
  Get_def Set_def generateCacheKey_def preVerifySignature_def Let_def decimal_def assignment_def
  publicInputs_def Milliseconds_def time_Sub_def minDuration_def maxDuration_def Hour_def
  Minute_def signed_divide_int_def Sprintf_d_def showNat_numeral showNat_small wrap64_def
  digit_char_def

subsection \<open>Input validation\<close>

text \<open>
  \<^bold>\<open>C10.\<close> The positivity check on the amounts is textual: it rejects the string \<open>"0"\<close>
  (and a leading minus sign), and nothing else. The request whose \<^verbatim>\<open>actualAmount\<close> is
  \<open>"00"\<close>, and the one whose \<^verbatim>\<open>minAmount\<close> is \<open>"00"\<close>, pass the whole of
  \<^verbatim>\<open>validateProofRequest\<close> although the integer written is zero, where the same requests
  with \<open>"0"\<close> are rejected as not positive.
\<close>

theorem positivity_check_passes_double_zero:
  "validateProofRequest 1700000000 (sample_request\<lparr>ProofRequest.ActualAmount := ''00''\<rparr>) = None \<and>
   validateProofRequest 1700000000 (sample_request\<lparr>ProofRequest.MinAmount := ''00''\<rparr>) = None \<and>
   decimal ''00'' = 0 \<and>
   validateProofRequest 1700000000 (sample_request\<lparr>ProofRequest.ActualAmount := ''0''\<rparr>)
     = Some ''actualAmount must be positive'' \<and>
   validateProofRequest 1700000000 (sample_request\<lparr>ProofRequest.MinAmount := ''0''\<rparr>)
     = Some ''minAmount must be positive''"
  by (simp add: validateProofRequest_def sample_request_def isValidNumeric_def decimal_def)

subsection \<open>The cache operations\<close>

lemma list_all_update:
  "list_all P al \<Longrightarrow> P (k, v) \<Longrightarrow> list_all P (AList.update k v al)"
  by (induction al) auto

lemma list_all_delete:
  "list_all P al \<Longrightarrow> list_all P (AList.delete k al)"
  by (induction al) auto

lemma list_all_fold_delete:
  "list_all P m \<Longrightarrow>
   list_all P (fold (\<lambda>(key, cached) m. if c key cached then AList.delete key m else m) xs m)"
  by (induction xs arbitrary: m) (auto simp: list_all_delete)

lemma Get_miss: "fst (Get e now pc req) = None \<Longrightarrow> Get e now pc req = (None, pc)"
  by (auto simp: Get_def Let_def split: option.splits if_splits)

lemma Get_hit:
  assumes "map_of (cache pc) (generateCacheKey e req) = Some cached"
    and "time_Sub now (GeneratedAt cached) \<le> ttl pc"
  shows "Get e now pc req =
           (Some \<lparr>ProofResponse.Proof = CachedProof.Proof cached,
                  ProofResponse.PublicInputs = CachedProof.PublicInputs cached,
                  GenerationTime = 0\<rparr>,
            pc\<lparr>cache := AList.update (generateCacheKey e req)
                    (cached\<lparr>AccessCount := wrap64 (AccessCount cached + 1)\<rparr>) (cache pc)\<rparr>)"
  using assms by (simp add: Get_def Let_def)

lemma Get_hit_entry:
  assumes "Get e now pc req = (Some resp, pc1)"
  shows "\<exists>cached. map_of (cache pc) (generateCacheKey e req) = Some cached \<and>
           ProofResponse.Proof resp = CachedProof.Proof cached"
  using assms by (auto simp: Get_def Let_def split: option.splits if_splits)

lemma evictLRU_ttl: "ttl (evictLRU now pc) = ttl pc" "maxSize (evictLRU now pc) = maxSize pc"
  by (simp_all add: evictLRU_def Let_def)

lemma Set_lookup:
  "map_of (cache (Set e en sn pc req resp)) (generateCacheKey e req) =
     Some \<lparr>CachedProof.Proof = ProofResponse.Proof resp,
           CachedProof.PublicInputs = ProofResponse.PublicInputs resp,
           GeneratedAt = sn, AccessCount = 1\<rparr>"
  by (simp add: Set_def Let_def update_conv)

lemma Set_ttl: "ttl (Set e en sn pc req resp) = ttl pc"
  by (simp add: Set_def Let_def evictLRU_ttl)

lemma all_verified_Get: "all_verified e pc \<Longrightarrow> all_verified e (snd (Get e now pc req))"
proof -
  assume a: "all_verified e pc"
  show ?thesis
  proof (cases "map_of (cache pc) (generateCacheKey e req)")
    case None
    then show ?thesis using a by (simp add: Get_def Let_def)
  next
    case (Some cached)
    then have "(generateCacheKey e req, cached) \<in> set (cache pc)" by (rule map_of_SomeD)
    then have "sanity_verified e (CachedProof.Proof cached)"
      using a by (auto simp: all_verified_def list_all_iff)
    then show ?thesis
      using a Some by (auto simp: Get_def Let_def all_verified_def intro!: list_all_update)
  qed
qed

lemma all_verified_evictLRU: "all_verified e pc \<Longrightarrow> all_verified e (evictLRU now pc)"
  by (simp add: evictLRU_def Let_def all_verified_def list_all_delete)

lemma all_verified_Set:
  "all_verified e pc \<Longrightarrow> sanity_verified e (ProofResponse.Proof resp) \<Longrightarrow>
   all_verified e (Set e en sn pc req resp)"
  using all_verified_evictLRU[of e pc en]
  by (auto simp: Set_def Let_def all_verified_def intro!: list_all_update)

lemma all_verified_cleanup: "all_verified e pc \<Longrightarrow> all_verified e (ProofCache_cleanup now pc)"
  by (simp add: ProofCache_cleanup_def all_verified_def list_all_fold_delete)

lemma all_verified_lookup:
  "all_verified e pc \<Longrightarrow> map_of (cache pc) k = Some cached \<Longrightarrow>
   sanity_verified e (CachedProof.Proof cached)"
  by (auto simp: all_verified_def list_all_iff dest!: map_of_SomeD)


subsection \<open>The branches of the handler\<close>

lemma handler_Malformed:
  "generateProofHandler e rd pc Malformed = ((400, ErrorBody ''Invalid request format''), pc, [])"
  by (simp add: generateProofHandler_def)

lemma handler_invalid:
  "validateProofRequest (Unix (validateNow rd)) req = Some err \<Longrightarrow>
   generateProofHandler e rd pc (Bound req) = ((400, ErrorBody err), pc, [])"
  by (simp add: generateProofHandler_def)

lemma handler_hit:
  "validateProofRequest (Unix (validateNow rd)) req = None \<Longrightarrow>
   Get e (getNow rd) pc req = (Some cached, pc1) \<Longrightarrow>
   generateProofHandler e rd pc (Bound req) = ((200, ProofBody cached), pc1, [])"
  by (simp add: generateProofHandler_def)

text \<open>The part of the handler after a cache miss.\<close>

lemma handler_miss:
  assumes "validateProofRequest (Unix (validateNow rd)) req = None"
    and "fst (Get e (getNow rd) pc req) = None"
  shows "generateProofHandler e rd pc (Bound req) =
     (case preVerifySignature e req of
        Some err \<Rightarrow>
          ((400, ErrorBody (''Invalid signature: '' @ err)), pc, [CallPreVerifySignature])
      | None \<Rightarrow>
     (case NewWitness e (assignment req) of
        None \<Rightarrow>
          ((500, ErrorBody ''witness creation failed''), pc,
           [CallPreVerifySignature, CallNewWitness])
      | Some witness \<Rightarrow>
     (case groth16_Prove e witness (entropy rd) of
        None \<Rightarrow>
          ((500, ErrorBody ''proof generation failed''), pc,
           [CallPreVerifySignature, CallNewWitness, CallProve])
      | Some proof \<Rightarrow>
     (case witness_Public e witness of
        None \<Rightarrow>
          ((500, ErrorBody ''public witness extraction failed''), pc,
           [CallPreVerifySignature, CallNewWitness, CallProve, CallPublic])
      | Some publicWitness \<Rightarrow>
     (if groth16_Verify e proof publicWitness = False then
          ((500, ErrorBody ''generated proof is invalid''), pc,
           [CallPreVerifySignature, CallNewWitness, CallProve, CallPublic, CallVerify])
      else
     (case json_Marshal e proof of
        None \<Rightarrow>
          ((500, ErrorBody ''proof serialization failed''), pc,
           [CallPreVerifySignature, CallNewWitness, CallProve, CallPublic, CallVerify,
            CallMarshal])
      | Some proofBytes \<Rightarrow>
          ((200, ProofBody \<lparr>ProofResponse.Proof = proofBytes,
                           ProofResponse.PublicInputs = publicInputs req,
                           GenerationTime = Milliseconds (time_Sub (doneNow rd) (startTime rd))\<rparr>),
           Set e (evictNow rd) (setNow rd) pc req
             \<lparr>ProofResponse.Proof = proofBytes,
              ProofResponse.PublicInputs = publicInputs req,
              GenerationTime = Milliseconds (time_Sub (doneNow rd) (startTime rd))\<rparr>,
           [CallPreVerifySignature, CallNewWitness, CallProve, CallPublic, CallVerify,
            CallMarshal])))))))"
proof -
  have g: "Get e (getNow rd) pc req = (None, pc)" using assms(2) by (rule Get_miss)
  show ?thesis
    unfolding generateProofHandler_def using assms(1) g
    by (simp add: Let_def split: option.splits)
qed


lemma sanity_verifiedI:
  "NewWitness e a = Some witness \<Longrightarrow> groth16_Prove e witness rnd = Some proof \<Longrightarrow>
   witness_Public e witness = Some publicWitness \<Longrightarrow> groth16_Verify e proof publicWitness \<Longrightarrow>
   json_Marshal e proof = Some proofBytes \<Longrightarrow> sanity_verified e proofBytes"
  unfolding sanity_verified_def by blast

lemma handler_all_verified:
  assumes inv: "all_verified e pc"
  shows "all_verified e (fst (snd (generateProofHandler e rd pc pl)))"
proof (cases pl)
  case Malformed
  then show ?thesis using inv by (simp add: handler_Malformed)
next
  case (Bound req)
  show ?thesis
  proof (cases "validateProofRequest (Unix (validateNow rd)) req")
    case (Some err)
    then show ?thesis using inv Bound by (simp add: handler_invalid)
  next
    case None
    show ?thesis
    proof (cases "fst (Get e (getNow rd) pc req)")
      case (Some cached)
      then have "Get e (getNow rd) pc req = (Some cached, snd (Get e (getNow rd) pc req))"
        by (simp add: prod_eq_iff)
      from handler_hit[OF None this] show ?thesis
        using Bound all_verified_Get[OF inv] by simp
    next
      case miss: None
      show ?thesis
        unfolding Bound handler_miss[OF None miss]
        using inv
        by (auto split: option.splits intro!: all_verified_Set intro: sanity_verifiedI)
    qed
  qed
qed

lemma reachable_all_verified: "reachable e pc \<Longrightarrow> all_verified e pc"
proof (induction rule: reachable.induct)
  case (start ms t)
  show ?case by (simp add: all_verified_def NewProofCache_def)
next
  case (request pc rd pl out pc' tr)
  from handler_all_verified[OF request.IH, of rd pl] request.hyps(2) show ?case by simp
next
  case (tick pc now)
  then show ?case by (simp add: all_verified_cleanup)
qed

lemma handler_200_verified:
  assumes inv: "all_verified e pc"
    and run: "generateProofHandler e rd pc pl = ((200, b), pc', tr)"
  shows "\<exists>resp. b = ProofBody resp \<and> sanity_verified e (ProofResponse.Proof resp)"
proof (cases pl)
  case Malformed
  then show ?thesis using run by (simp add: handler_Malformed)
next
  case (Bound req)
  show ?thesis
  proof (cases "validateProofRequest (Unix (validateNow rd)) req")
    case (Some err)
    then show ?thesis using run Bound by (simp add: handler_invalid)
  next
    case None
    show ?thesis
    proof (cases "fst (Get e (getNow rd) pc req)")
      case (Some cached)
      then have g: "Get e (getNow rd) pc req = (Some cached, snd (Get e (getNow rd) pc req))"
        by (simp add: prod_eq_iff)
      from Get_hit_entry[OF g] obtain entry where
        "map_of (cache pc) (generateCacheKey e req) = Some entry"
        "ProofResponse.Proof cached = CachedProof.Proof entry" by blast
      then have "sanity_verified e (ProofResponse.Proof cached)"
        using all_verified_lookup[OF inv] by simp
      then show ?thesis using handler_hit[OF None g] run Bound by auto
    next
      case miss: None
      show ?thesis
        using run unfolding Bound handler_miss[OF None miss]
        by (auto split: option.splits if_splits intro: sanity_verifiedI)
    qed
  qed
qed

lemma handler_fresh_200:
  assumes run: "generateProofHandler e rd pc pl = ((200, b), pc', tr)" and fresh: "CallProve \<in> set tr"
  shows "\<exists>req witness proof publicWitness proofBytes.
           pl = Bound req \<and> validateProofRequest (Unix (validateNow rd)) req = None \<and>
           fst (Get e (getNow rd) pc req) = None \<and> preVerifySignature e req = None \<and>
           NewWitness e (assignment req) = Some witness \<and>
           groth16_Prove e witness (entropy rd) = Some proof \<and>
           witness_Public e witness = Some publicWitness \<and>
           groth16_Verify e proof publicWitness \<and>
           json_Marshal e proof = Some proofBytes \<and>
           b = ProofBody \<lparr>ProofResponse.Proof = proofBytes,
                           ProofResponse.PublicInputs = publicInputs req,
                           GenerationTime = Milliseconds (time_Sub (doneNow rd) (startTime rd))\<rparr> \<and>
           pc' = Set e (evictNow rd) (setNow rd) pc req
                   \<lparr>ProofResponse.Proof = proofBytes,
                    ProofResponse.PublicInputs = publicInputs req,
                    GenerationTime = Milliseconds (time_Sub (doneNow rd) (startTime rd))\<rparr>"
proof (cases pl)
  case Malformed
  then show ?thesis using run by (simp add: handler_Malformed)
next
  case (Bound req)
  show ?thesis
  proof (cases "validateProofRequest (Unix (validateNow rd)) req")
    case (Some err)
    then show ?thesis using run Bound by (simp add: handler_invalid)
  next
    case None
    show ?thesis
    proof (cases "fst (Get e (getNow rd) pc req)")
      case (Some cached)
      then have g: "Get e (getNow rd) pc req = (Some cached, snd (Get e (getNow rd) pc req))"
        by (simp add: prod_eq_iff)
      show ?thesis using handler_hit[OF None g] run Bound fresh by simp
    next
      case miss: None
      show ?thesis
        using run None miss unfolding Bound handler_miss[OF None miss]
        by (auto split: option.splits if_splits)
    qed
  qed
qed

lemma handler_verify_fails:
  assumes "validateProofRequest (Unix (validateNow rd)) req = None"
    and "fst (Get e (getNow rd) pc req) = None"
    and "preVerifySignature e req = None"
    and "NewWitness e (assignment req) = Some witness"
    and "groth16_Prove e witness (entropy rd) = Some proof"
    and "witness_Public e witness = Some publicWitness"
    and "groth16_Verify e proof publicWitness = False"
  shows "generateProofHandler e rd pc (Bound req) =
           ((500, ErrorBody ''generated proof is invalid''), pc,
            [CallPreVerifySignature, CallNewWitness, CallProve, CallPublic, CallVerify])"
  unfolding handler_miss[OF assms(1,2)] using assms(3-7) by simp

subsection \<open>Validation of the key and signature fields\<close>

text \<open>
  \<^bold>\<open>C3.\<close> Validation is claimed to reject a request unless every numeric field is
  non-empty, at most 100 characters long and made of decimal digits only. The code
  checks digits for \<^verbatim>\<open>minAmount\<close>, \<^verbatim>\<open>actualAmount\<close> and \<^verbatim>\<open>maxBlockAge\<close> and the
  length for \<^verbatim>\<open>minAmount\<close>, \<^verbatim>\<open>recipientKeyX\<close> and \<^verbatim>\<open>recipientKeyY\<close> only: the request
  whose \<^verbatim>\<open>senderKeyX\<close> is \<open>"not-a-number"\<close> and whose \<^verbatim>\<open>signatureS\<close> has 101
  characters passes \<^verbatim>\<open>validateProofRequest\<close>, and with an empty cache the handler goes
  on to the signature pre-verification, whatever the libraries are.
\<close>

theorem validation_passes_malformed_key:
  "validateProofRequest 1700000000 malformed_key_request = None \<and>
   isValidNumeric (ProofRequest.SenderKeyX malformed_key_request) = False \<and>
   length (ProofRequest.SignatureS malformed_key_request) = 101 \<and>
   CallPreVerifySignature \<in>
     set (snd (snd (generateProofHandler e sample_reads (NewProofCache ms t)
                      (Bound malformed_key_request))))"
proof -
  have v: "validateProofRequest (Unix (validateNow sample_reads)) malformed_key_request = None"
    by (simp add: validateProofRequest_def request_defs isValidNumeric_def Unix_def
        sample_reads_def)
  have m: "fst (Get e (getNow sample_reads) (NewProofCache ms t) malformed_key_request) = None"
    by (simp add: Get_def NewProofCache_def Let_def)
  have "CallPreVerifySignature \<in>
     set (snd (snd (generateProofHandler e sample_reads (NewProofCache ms t)
                      (Bound malformed_key_request))))"
    unfolding handler_miss[OF v m] by (simp split: option.splits)
  moreover have "validateProofRequest 1700000000 malformed_key_request = None"
    using v by (simp add: Unix_def sample_reads_def)
  moreover have "isValidNumeric (ProofRequest.SenderKeyX malformed_key_request) = False"
    by (simp add: request_defs isValidNumeric_def)
  moreover have "length (ProofRequest.SignatureS malformed_key_request) = 101"
    by (simp add: request_defs)
  ultimately show ?thesis by simp
qed

subsection \<open>The recency constraint\<close>

lemma witness_values_boundary:
  "witness_values boundary_request =
     \<lparr>MinAmount = 1000000,
      RecipientKeyX = 12345678901234567890123456789012,
      RecipientKeyY = 98765432109876543210987654321098,
      MaxBlockAge = 60,
      CurrentTime = 1700000000,
      ActualAmount = 1500000,
      SenderKeyX = 11111111111111111111111111111111,
      SenderKeyY = 22222222222222222222222222222222,
      PaymentTime = 1699999940,
      SignatureR8X = 33333333333333333333333333333333,
      SignatureR8Y = 44444444444444444444444444444444,
      SignatureS = 55555555555555555555555555555555\<rparr>"
  by (simp add: witness_values_def request_defs field_of_string_def field_of_int64_def
      decimal_def fr_modulus_def)

text \<open>For a payment that is not later than the claim, the recency constraint of the Go
  circuit is the non-strict comparison of the age with \<^verbatim>\<open>MaxBlockAge\<close>.\<close>

lemma api_Sub_age: "b \<le> a \<Longrightarrow> a < fr_modulus \<Longrightarrow> api_Sub a b = a - b"
proof -
  assume le: "b \<le> a" and lt: "a < fr_modulus"
  have b: "b mod fr_modulus = b" using le lt by simp
  have "a + (fr_modulus - b) = fr_modulus + (a - b)" using le lt by simp
  then have "(a + (fr_modulus - b)) mod fr_modulus = (fr_modulus + (a - b)) mod fr_modulus"
    by (simp only:)
  also have "\<dots> = a - b" using lt by simp
  finally show ?thesis by (simp only: api_Sub_def b)
qed

lemma Define_recency_non_strict:
  assumes "PaymentTime circuit \<le> CurrentTime circuit" "CurrentTime circuit < fr_modulus"
  shows "Define mimc eddsa circuit =
           (MinAmount circuit \<le> ActualAmount circuit \<and>
            CurrentTime circuit - PaymentTime circuit \<le> MaxBlockAge circuit \<and>
            eddsa (SignatureR8X circuit, SignatureR8Y circuit, SignatureS circuit)
              (mimc [ActualAmount circuit, SenderKeyX circuit, SenderKeyY circuit,
                     RecipientKeyX circuit, RecipientKeyY circuit, PaymentTime circuit])
              (SenderKeyX circuit, SenderKeyY circuit))"
  by (simp add: Define_def Let_def AssertIsLessOrEqual_def api_Sub_age[OF assms])

text \<open>The comparator of the circom circuit, on operands of at most 64 bits, is the strict
  order.\<close>

lemma LessThan_64:
  assumes "a < 2 ^ 64" "b < 2 ^ 64"
  shows "LessThan 64 a b = Some (if a < b then 1 else 0)"
proof -
  have p: "(2::nat) ^ 65 < fr_modulus" by (simp add: fr_modulus_def)
  have bm: "b mod fr_modulus = b" using assms(2) p by simp
  define y where "y = a + 2 ^ 64 - b"
  have yl: "y < 2 ^ 65" using assms by (simp add: y_def)
  have eq: "a + 2 ^ 64 + (fr_modulus - b) = fr_modulus + y"
    using assms p by (simp add: y_def)
  have "(a + 2 ^ 64 + (fr_modulus - b)) mod fr_modulus = (fr_modulus + y) mod fr_modulus"
    by (simp only: eq)
  also have "\<dots> = y" using yl p by simp
  finally have x: "(a + 2 ^ 64 + (fr_modulus - b mod fr_modulus)) mod fr_modulus = y"
    by (simp only: bm)
  have bit: "y div 2 ^ 64 mod 2 = (if a < b then 0 else 1)"
  proof (cases "a < b")
    case True
    then have "y < 2 ^ 64" using assms by (simp add: y_def)
    then show ?thesis using True by simp
  next
    case False
    then have "y = 2 ^ 64 + (a - b)" "a - b < 2 ^ 64" using assms by (simp_all add: y_def)
    then show ?thesis using False by simp
  qed
  show ?thesis
    unfolding LessThan_def Let_def x using yl bit by simp
qed

text \<open>The circom circuit has no witness for a payment that is exactly \<^verbatim>\<open>maxBlockAge\<close>
  seconds old.\<close>

lemma circom_rejects_age_equal_to_bound:
  "PaymentProofOptimized poseidon eddsaPoseidon
     \<lparr>minAmount = 1000000, recipientHash = h, maxBlockAge = 60, currentTime = 1700000000,
      actualAmount = 1500000, senderPubKeyX = sx, senderPubKeyY = sy,
      recipientPubKeyX = rx, recipientPubKeyY = ry, paymentTime = 1699999940,
      R8x = r8x, R8y = r8y, S = s\<rparr> = None"
proof -
  have d: "api_Sub 1700000000 1699999940 = 60" by (simp add: api_Sub_def fr_modulus_def)
  have "LessThan 64 60 60 = Some 0" by (subst LessThan_64) simp_all
  then show ?thesis by (simp add: PaymentProofOptimized_def d Let_def)
qed

lemma isValidNumeric_nonempty: "isValidNumeric s \<Longrightarrow> s \<noteq> []"
  by (auto simp: isValidNumeric_def split: if_splits)

lemma witness_values_signed_boundary:
  "witness_values (signed_boundary_request sx sy r8x r8y s) =
     \<lparr>MinAmount = 1000000,
      RecipientKeyX = 12345678901234567890123456789012,
      RecipientKeyY = 98765432109876543210987654321098,
      MaxBlockAge = 60,
      CurrentTime = 1700000000,
      ActualAmount = 1500000,
      SenderKeyX = field_of_string sx,
      SenderKeyY = field_of_string sy,
      PaymentTime = 1699999940,
      SignatureR8X = field_of_string r8x,
      SignatureR8Y = field_of_string r8y,
      SignatureS = field_of_string s\<rparr>"
proof -
  have f: "field_of_string ''1000000'' = 1000000"
    "field_of_string ''12345678901234567890123456789012'' = 12345678901234567890123456789012"
    "field_of_string ''98765432109876543210987654321098'' = 98765432109876543210987654321098"
    "field_of_string ''60'' = 60" "field_of_string ''1500000'' = 1500000"
    by (simp_all add: field_of_string_def decimal_def fr_modulus_def)
  have g: "field_of_int64 1700000000 = 1700000000" "field_of_int64 1699999940 = 1699999940"
    by (simp_all add: field_of_int64_def fr_modulus_def)
  show ?thesis
    by (simp add: witness_values_def signed_boundary_request_def boundary_request_def
        sample_request_def f g)
qed

lemma signed_boundary_valid:
  assumes "sx \<noteq> []" "sy \<noteq> []" "r8x \<noteq> []" "r8y \<noteq> []" "s \<noteq> []"
  shows "validateProofRequest 1700000000 (signed_boundary_request sx sy r8x r8y s) = None"
proof -
  have n: "isValidNumeric ''1000000''" "isValidNumeric ''1500000''" "isValidNumeric ''60''"
    by (simp_all add: isValidNumeric_def)
  show ?thesis
    using assms
    by (simp add: validateProofRequest_def signed_boundary_request_def boundary_request_def
        sample_request_def n)
qed

text \<open>
  \<^bold>\<open>C1.\<close> The recency constraint is claimed to be strict, a request with
  \<open>currentTime - paymentTime = maxBlockAge\<close> being rejected. The circuit of the Go prover
  asserts \<open>timeDiff \<le> MaxBlockAge\<close>. Take the payment of 1500000 made exactly
  \<^verbatim>\<open>maxBlockAge\<close> = 60 seconds before the claim, under any sender key and signature, given
  as decimal strings, that the pre-verifier and the in-circuit \<^verbatim>\<open>eddsa.Verify\<close> accept. The
  request passes validation, the handler goes on to build the witness, and the witness
  satisfies every constraint of \<^verbatim>\<open>Define\<close>: the circuit accepts the request, where the
  circom circuit has no witness for it.
\<close>

theorem Define_accepts_age_equal_to_bound:
  assumes key: "isValidNumeric sx" "isValidNumeric sy"
    and sig: "isValidNumeric r8x" "isValidNumeric r8y" "isValidNumeric s"
    and pre: "preVerifySignature e (signed_boundary_request sx sy r8x r8y s) = None"
    and accepted:
      "eddsa (field_of_string r8x, field_of_string r8y, field_of_string s)
         (mimc [1500000, field_of_string sx, field_of_string sy,
                12345678901234567890123456789012, 98765432109876543210987654321098,
                1699999940])
         (field_of_string sx, field_of_string sy)"
  shows "validateProofRequest 1700000000 (signed_boundary_request sx sy r8x r8y s) = None \<and>
         ProofRequest.CurrentTime (signed_boundary_request sx sy r8x r8y s)
           - ProofRequest.PaymentTime (signed_boundary_request sx sy r8x r8y s)
           = int (decimal (ProofRequest.MaxBlockAge (signed_boundary_request sx sy r8x r8y s))) \<and>
         CallNewWitness \<in>
           set (snd (snd (generateProofHandler e sample_reads (NewProofCache ms t)
                            (Bound (signed_boundary_request sx sy r8x r8y s))))) \<and>
         Define mimc eddsa (witness_values (signed_boundary_request sx sy r8x r8y s))"
proof -
  let ?req = "signed_boundary_request sx sy r8x r8y s"
  have ne: "sx \<noteq> []" "sy \<noteq> []" "r8x \<noteq> []" "r8y \<noteq> []" "s \<noteq> []"
    using key sig by (simp_all add: isValidNumeric_nonempty)
  have v: "validateProofRequest 1700000000 ?req = None"
    by (rule signed_boundary_valid[OF ne])
  have v': "validateProofRequest (Unix (validateNow sample_reads)) ?req = None"
    using v by (simp add: Unix_def sample_reads_def)
  have age: "ProofRequest.CurrentTime ?req - ProofRequest.PaymentTime ?req
               = int (decimal (ProofRequest.MaxBlockAge ?req))"
    by (simp add: signed_boundary_request_def boundary_request_def sample_request_def decimal_def)
  have m: "fst (Get e (getNow sample_reads) (NewProofCache ms t) ?req) = None"
    by (simp add: Get_def NewProofCache_def Let_def)
  have reach: "CallNewWitness \<in>
     set (snd (snd (generateProofHandler e sample_reads (NewProofCache ms t) (Bound ?req))))"
    unfolding handler_miss[OF v' m] using pre by (simp split: option.splits)
  have p: "(1700000000::nat) < fr_modulus" by (simp add: fr_modulus_def)
  have d: "Define mimc eddsa (witness_values ?req)"
    unfolding witness_values_signed_boundary
    by (subst Define_recency_non_strict) (use accepted p in simp_all)
  from v age reach d show ?thesis by blast
qed

theorem Define_accepts_age_equal_to_bound_witness:
  "isValidNumeric ''11111111111111111111111111111111'' \<and>
   isValidNumeric ''22222222222222222222222222222222'' \<and>
   isValidNumeric ''33333333333333333333333333333333'' \<and>
   isValidNumeric ''44444444444444444444444444444444'' \<and>
   isValidNumeric ''55555555555555555555555555555555'' \<and>
   signed_boundary_request ''11111111111111111111111111111111''
     ''22222222222222222222222222222222'' ''33333333333333333333333333333333''
     ''44444444444444444444444444444444'' ''55555555555555555555555555555555'' = boundary_request \<and>
   preVerifySignature sample_env boundary_request = None \<and>
   validateProofRequest 1700000000 boundary_request = None \<and>
   ProofRequest.CurrentTime boundary_request - ProofRequest.PaymentTime boundary_request = 60 \<and>
   CallNewWitness \<in>
     set (snd (snd (generateProofHandler sample_env sample_reads (NewProofCache 1000 Hour)
                      (Bound boundary_request)))) \<and>
   Define sum_list (\<lambda>signature messageHash publicKey.
                      fst signature = 33333333333333333333333333333333)
     (witness_values boundary_request)"
proof -
  have n: "isValidNumeric ''11111111111111111111111111111111''"
    "isValidNumeric ''22222222222222222222222222222222''"
    "isValidNumeric ''33333333333333333333333333333333''"
    "isValidNumeric ''44444444444444444444444444444444''"
    "isValidNumeric ''55555555555555555555555555555555''"
    by (simp_all add: isValidNumeric_def)
  have eq: "signed_boundary_request ''11111111111111111111111111111111''
     ''22222222222222222222222222222222'' ''33333333333333333333333333333333''
     ''44444444444444444444444444444444'' ''55555555555555555555555555555555'' = boundary_request"
    by (simp add: signed_boundary_request_def boundary_request_def sample_request_def)
  have pre: "preVerifySignature sample_env boundary_request = None"
    by (simp add: preVerifySignature_def Let_def sample_env_def boundary_request_def
        sample_request_def decimal_def)
  have acc: "fst (field_of_string ''33333333333333333333333333333333'',
                  field_of_string ''44444444444444444444444444444444'',
                  field_of_string ''55555555555555555555555555555555'')
               = 33333333333333333333333333333333"
    by (simp add: field_of_string_def decimal_def fr_modulus_def)
  have d: "decimal ''60'' = 60" by (simp add: decimal_def)
  note inst = Define_accepts_age_equal_to_bound[of "''11111111111111111111111111111111''"
      "''22222222222222222222222222222222''" "''33333333333333333333333333333333''"
      "''44444444444444444444444444444444''" "''55555555555555555555555555555555''"
      sample_env
      "\<lambda>signature messageHash publicKey. fst signature = 33333333333333333333333333333333"
      sum_list 1000 Hour, unfolded eq, OF n pre acc]
  have m: "ProofRequest.MaxBlockAge boundary_request = ''60''"
    by (simp add: boundary_request_def sample_request_def)
  from inst n eq pre show ?thesis by (simp add: m d)
qed

subsection \<open>The rate limiter\<close>

lemma wrap64_id: "- (2 ^ 63) \<le> x \<Longrightarrow> x < 2 ^ 63 \<Longrightarrow> wrap64 x = x"
  unfolding wrap64_def by (rule signed_take_bit_int_eq_self)

lemma sdiv_small: "\<bar>d\<bar> < P \<Longrightarrow> (d::int) sdiv P = 0"
  by (simp add: signed_divide_int_def)

lemma time_Sub_small: "\<bar>t - u\<bar> < P \<Longrightarrow> P < 2 ^ 63 \<Longrightarrow> time_Sub t u = t - u"
  by (auto simp: time_Sub_def Let_def minDuration_def maxDuration_def)

lemma Allow_existing_no_refill:
  assumes "buckets rl ip = Some b" "lastRefill b = t0" "\<bar>now - t0\<bar> < period rl" "period rl < 2 ^ 63"
  shows "Allow rl ip c now =
           Some (tokens b > 0,
                 rl\<lparr>buckets := (buckets rl)(ip \<mapsto> (if tokens b > 0 then b\<lparr>tokens := tokens b - 1\<rparr> else b))\<rparr>)"
proof -
  have P: "period rl \<noteq> 0" using assms(3) by auto
  have e: "time_Sub now (lastRefill b) = now - t0"
    using time_Sub_small[OF assms(3) assms(4)] assms(2) by simp
  have q: "(now - t0) sdiv period rl = 0" using assms(3) by (rule sdiv_small)
  have w: "wrap64 (wrap64 0 * maxRate rl) = 0" by (simp add: wrap64_def)
  show ?thesis
    unfolding Allow_def using assms(1) P by (simp add: Let_def e q w)
qed


lemma Allow_calls_drain:
  assumes "buckets rl ip = Some b" "tokens b = int k" "lastRefill b = t0"
    "period rl < 2 ^ 63" "\<forall>t\<in>set ts. \<bar>t - t0\<bar> < period rl"
  shows "\<exists>rl'. Allow_calls rl ip c ts =
             Some (replicate (min k (length ts)) True @ replicate (length ts - k) False, rl') \<and>
           buckets rl' ip = Some (b\<lparr>tokens := int (k - length ts)\<rparr>) \<and>
           maxRate rl' = maxRate rl \<and> period rl' = period rl"
  using assms
proof (induction ts arbitrary: rl b k)
  case Nil
  then show ?case by simp
next
  case (Cons t ts)
  define b1 where "b1 = (if tokens b > 0 then b\<lparr>tokens := tokens b - 1\<rparr> else b)"
  define rl1 where "rl1 = rl\<lparr>buckets := (buckets rl)(ip \<mapsto> b1)\<rparr>"
  have near: "\<bar>t - t0\<bar> < period rl" using Cons.prems(5) by simp
  have step: "Allow rl ip c t = Some (tokens b > 0, rl1)"
    unfolding rl1_def b1_def
    by (rule Allow_existing_no_refill[OF Cons.prems(1) Cons.prems(3) near Cons.prems(4)])
  have b1: "buckets rl1 ip = Some b1" "tokens b1 = int (k - 1)" "lastRefill b1 = t0"
    "period rl1 < 2 ^ 63" "\<forall>t\<in>set ts. \<bar>t - t0\<bar> < period rl1"
    using Cons.prems by (auto simp: rl1_def b1_def)
  from Cons.IH[OF b1] obtain rl' where
    rec: "Allow_calls rl1 ip c ts =
            Some (replicate (min (k - 1) (length ts)) True @ replicate (length ts - (k - 1)) False, rl')"
    and fin: "buckets rl' ip = Some (b1\<lparr>tokens := int (k - 1 - length ts)\<rparr>)"
      "maxRate rl' = maxRate rl1" "period rl' = period rl1"
    by blast
  have res: "(tokens b > 0) # replicate (min (k - 1) (length ts)) True @ replicate (length ts - (k - 1)) False
      = replicate (min k (length (t # ts))) True @ replicate (length (t # ts) - k) False"
    using Cons.prems(2) by (cases k) auto
  have fb: "b1\<lparr>tokens := int (k - 1 - length ts)\<rparr> = b\<lparr>tokens := int (k - length (t # ts))\<rparr>"
    by (simp add: b1_def)
  show ?case
    using step rec fin res fb by (simp add: rl1_def)
qed

lemma Allow_fresh_first:
  assumes "buckets rl ip = None" "0 < maxRate rl" "\<bar>now - t0\<bar> < period rl" "period rl < 2 ^ 63"
  shows "Allow rl ip t0 now =
           Some (True, rl\<lparr>buckets := (buckets rl)(ip \<mapsto> \<lparr>tokens = maxRate rl - 1, lastRefill = t0\<rparr>)\<rparr>)"
proof -
  have P: "period rl \<noteq> 0" using assms(3) by auto
  have e: "time_Sub now t0 = now - t0"
    using time_Sub_small[OF assms(3) assms(4)] by simp
  have q: "(now - t0) sdiv period rl = 0" using assms(3) by (rule sdiv_small)
  have w: "wrap64 (wrap64 0 * maxRate rl) = 0" by (simp add: wrap64_def)
  show ?thesis
    unfolding Allow_def using assms(1,2) P by (simp add: Let_def e q w)
qed

lemma Allow_refill:
  assumes b: "buckets rl ip = Some b" and t0: "lastRefill b = t0"
    and N: "0 < maxRate rl" "maxRate rl < 2 ^ 63" and P: "0 < period rl" "period rl < 2 ^ 63"
    and tok: "0 \<le> tokens b" "tokens b \<le> maxRate rl"
    and el: "period rl \<le> now - t0"
    and nov: "tokens b + (time_Sub now t0 div period rl) * maxRate rl < 2 ^ 63"
  shows "Allow rl ip c now =
           Some (True, rl\<lparr>buckets := (buckets rl)(ip \<mapsto> \<lparr>tokens = maxRate rl - 1, lastRefill = now\<rparr>)\<rparr>)"
proof -
  define d where "d = time_Sub now t0"
  have d1: "period rl \<le> d"
    using el P by (auto simp: d_def time_Sub_def Let_def minDuration_def maxDuration_def)
  have d2: "d < 2 ^ 63"
    by (auto simp: d_def time_Sub_def Let_def minDuration_def maxDuration_def)
  define q where "q = d div period rl"
  have dpos: "0 \<le> d" using d1 P by linarith
  have qs: "d sdiv period rl = q"
    using dpos P by (simp add: signed_divide_int_def q_def sgn_if)
  have q1: "1 \<le> q"
    using pos_imp_zdiv_pos_iff[of "period rl" d] d1 P by (simp add: q_def)
  have qN: "maxRate rl \<le> q * maxRate rl" using q1 N by (simp add: mult_le_cancel_right1)
  have qqN: "q \<le> q * maxRate rl" using q1 N by (simp add: mult_le_cancel_left1)
  have nov': "tokens b + q * maxRate rl < 2 ^ 63" using nov by (simp add: q_def d_def)
  have wq: "wrap64 q = q"
    by (rule wrap64_id) (use q1 qqN nov' N tok in linarith)+
  have wqN: "wrap64 (q * maxRate rl) = q * maxRate rl"
    by (rule wrap64_id) (use qN N nov' tok in linarith)+
  have wsum: "wrap64 (tokens b + q * maxRate rl) = tokens b + q * maxRate rl"
    by (rule wrap64_id) (use qN N nov' tok in linarith)+
  have Pn: "period rl \<noteq> 0" using P by simp
  have pos: "q * maxRate rl > 0" using qN N by linarith
  have cap: "(if maxRate rl < tokens b + q * maxRate rl then maxRate rl
              else tokens b + q * maxRate rl) = maxRate rl"
    using qN tok by auto
  show ?thesis
    unfolding Allow_def using b Pn t0 pos N
    by (simp add: Let_def d_def[symmetric] qs wq wqN wsum cap)
qed

text \<open>
  \<^bold>\<open>C6.\<close> For a client without a bucket, a limiter of capacity \<open>maxRate > 0\<close> and a
  period \<open>period > 0\<close>: the first call creates the bucket full (it holds
  \<open>maxRate - 1\<close> tokens once that call has taken its own), of \<open>maxRate + 1\<close> calls made
  while less than one period has passed since the creation (in particular with no time
  passing at all) the first \<open>maxRate\<close> are allowed and the last is denied, and a call made
  once a full period has passed is allowed again. \<open>maxRate\<close> and \<open>period\<close> are an \<^verbatim>\<open>int\<close>
  and a \<^verbatim>\<open>time.Duration\<close>, hence below \<open>2\<^sup>6\<^sup>3\<close>, and the refill \<open>elapsed / period * maxRate\<close>
  is taken not to overflow.
\<close>

theorem rate_limiter_fairness:
  assumes fresh: "buckets rl ip = None"
    and N: "0 < maxRate rl" "maxRate rl < 2 ^ 63"
    and P: "0 < period rl" "period rl < 2 ^ 63"
    and len: "length ts = nat (maxRate rl) + 1"
    and still: "\<forall>t\<in>set ts. \<bar>t - t0\<bar> < period rl"
    and later: "period rl \<le> t' - t0"
    and nov: "(time_Sub t' t0 div period rl) * maxRate rl < 2 ^ 63"
  shows "\<exists>rl0 rl1 rl2.
           Allow rl ip t0 (hd ts) = Some (True, rl0) \<and>
           buckets rl0 ip = Some \<lparr>tokens = maxRate rl - 1, lastRefill = t0\<rparr> \<and>
           Allow_calls rl ip t0 ts = Some (replicate (nat (maxRate rl)) True @ [False], rl1) \<and>
           Allow rl1 ip c t' = Some (True, rl2)"
proof -
  define n where "n = nat (maxRate rl)"
  have n: "maxRate rl = int n" "0 < n" using N by (simp_all add: n_def)
  obtain t ts' where ts: "ts = t # ts'" and len': "length ts' = n"
    using len by (cases ts) (auto simp: n_def)
  define b0 where "b0 = \<lparr>tokens = maxRate rl - 1, lastRefill = t0\<rparr>"
  define rl0 where "rl0 = rl\<lparr>buckets := (buckets rl)(ip \<mapsto> b0)\<rparr>"
  have near: "\<bar>t - t0\<bar> < period rl" using still ts by simp
  have first: "Allow rl ip t0 t = Some (True, rl0)"
    unfolding rl0_def b0_def by (rule Allow_fresh_first[OF fresh N(1) near P(2)])
  have pre: "buckets rl0 ip = Some b0" "tokens b0 = int (n - 1)" "lastRefill b0 = t0"
    "period rl0 < 2 ^ 63" "\<forall>t\<in>set ts'. \<bar>t - t0\<bar> < period rl0"
    using n P still ts by (auto simp: rl0_def b0_def)
  from Allow_calls_drain[OF pre, of t0] obtain rl1 where
    run: "Allow_calls rl0 ip t0 ts' =
            Some (replicate (min (n - 1) (length ts')) True @ replicate (length ts' - (n - 1)) False, rl1)"
    and fin: "buckets rl1 ip = Some (b0\<lparr>tokens := int (n - 1 - length ts')\<rparr>)"
      "maxRate rl1 = maxRate rl0" "period rl1 = period rl0"
    by blast
  have shape: "True # replicate (min (n - 1) (length ts')) True @ replicate (length ts' - (n - 1)) False
      = replicate n True @ [False]"
    using len' n(2) by (cases n) auto
  have all: "Allow_calls rl ip t0 ts = Some (replicate (nat (maxRate rl)) True @ [False], rl1)"
    using first run shape by (simp add: ts n_def)
  define b1 where "b1 = b0\<lparr>tokens := int (n - 1 - length ts')\<rparr>"
  have b1: "buckets rl1 ip = Some b1" "lastRefill b1 = t0" "tokens b1 = 0"
    using fin(1) len' by (simp_all add: b1_def b0_def)
  have same: "maxRate rl1 = maxRate rl" "period rl1 = period rl"
    using fin by (simp_all add: rl0_def)
  have "Allow rl1 ip c t' =
          Some (True, rl1\<lparr>buckets := (buckets rl1)(ip \<mapsto> \<lparr>tokens = maxRate rl1 - 1, lastRefill = t'\<rparr>)\<rparr>)"
    by (rule Allow_refill[OF b1(1) b1(2)]) (use N P later nov b1(3) same in simp_all)
  then show ?thesis
    using first all pre(1) by (auto simp: ts b0_def)
qed

theorem rate_limiter_fairness_witness:
  "buckets (NewRateLimiter 10 Minute) ''10.0.0.1'' = None \<and>
   maxRate (NewRateLimiter 10 Minute) = 10 \<and> period (NewRateLimiter 10 Minute) = 60000000000 \<and>
   (\<exists>rl0 rl1 rl2.
     Allow (NewRateLimiter 10 Minute) ''10.0.0.1'' 1700000000000000000 1700000000000000000
       = Some (True, rl0) \<and>
     buckets rl0 ''10.0.0.1'' = Some \<lparr>tokens = 9, lastRefill = 1700000000000000000\<rparr> \<and>
     Allow_calls (NewRateLimiter 10 Minute) ''10.0.0.1'' 1700000000000000000
       (replicate 11 1700000000000000000) = Some (replicate 10 True @ [False], rl1) \<and>
     Allow rl1 ''10.0.0.1'' 1700000060000000000 1700000060000000000 = Some (True, rl2))"
  using rate_limiter_fairness[of "NewRateLimiter 10 Minute" "''10.0.0.1''"
      "replicate 11 1700000000000000000" 1700000000000000000 1700000060000000000
      1700000060000000000]
  by (simp add: NewRateLimiter_def Minute_def time_Sub_def minDuration_def maxDuration_def)

subsection \<open>Decimal rendering\<close>

text \<open>Reading back what \<^verbatim>\<open>%d\<close> printed gives the number, so that two numbers print alike only if they are equal.\<close>

lemma decimal_acc_snoc:
  "decimal_acc acc (xs @ [c]) = 10 * decimal_acc acc xs + (of_char c - 48)"
  by (induction xs arbitrary: acc) simp_all

lemma digit_cases: "d < 10 \<Longrightarrow> d \<in> {0, 1, 2, 3, 4, 5, 6, 7, 8, 9::nat}"
  by auto

lemma of_char_digit_char: "d < 10 \<Longrightarrow> (of_char (digit_char d) :: nat) = 48 + d"
  by (drule digit_cases) (auto simp: digit_char_def)

lemma digit_char_not_minus: "d < 10 \<Longrightarrow> digit_char d \<noteq> CHR ''-''"
  by (drule digit_cases) (auto simp: digit_char_def)

lemma decimal_showNat: "decimal (showNat n) = n"
proof (induction n rule: showNat.induct)
  case (1 n)
  show ?case
  proof (cases "n < 10")
    case True
    then show ?thesis
      by (simp add: showNat.simps[of n] decimal_def of_char_digit_char)
  next
    case False
    have m: "n mod 10 < 10" by simp
    from False "1.IH" have "decimal_acc 0 (showNat (n div 10)) = n div 10"
      by (simp add: decimal_def)
    then show ?thesis
      using False by (simp add: showNat.simps[of n] decimal_def decimal_acc_snoc of_char_digit_char[OF m])
  qed
qed

lemma hd_showNat: "hd (showNat n) \<noteq> CHR ''-''"
proof (induction n rule: showNat.induct)
  case (1 n)
  show ?case
  proof (cases "n < 10")
    case True
    then show ?thesis by (simp add: showNat.simps[of n] digit_char_not_minus)
  next
    case False
    have ne: "showNat (n div 10) \<noteq> []" by (subst showNat.simps) simp
    from False "1.IH" ne show ?thesis by (simp add: showNat.simps[of n])
  qed
qed

lemma Sprintf_d_inj: "Sprintf_d i = Sprintf_d j \<Longrightarrow> i = j"
proof -
  assume eq: "Sprintf_d i = Sprintf_d j"
  have nn: "showNat a = showNat b \<Longrightarrow> a = b" for a b
    using decimal_showNat by metis
  show ?thesis
  proof (cases "i < 0"; cases "j < 0")
    assume "i < 0" "j < 0"
    then show ?thesis using eq nn[of "nat (- i)" "nat (- j)"] by (simp add: Sprintf_d_def)
  next
    assume "i < 0" "\<not> j < 0"
    then have "CHR ''-'' # showNat (nat (- i)) = showNat (nat j)" using eq by (simp add: Sprintf_d_def)
    then have "hd (showNat (nat j)) = CHR ''-''" by (metis list.sel(1))
    then show ?thesis using hd_showNat by blast
  next
    assume "\<not> i < 0" "j < 0"
    then have "CHR ''-'' # showNat (nat (- j)) = showNat (nat i)" using eq by (simp add: Sprintf_d_def)
    then have "hd (showNat (nat i)) = CHR ''-''" by (metis list.sel(1))
    then show ?thesis using hd_showNat by blast
  next
    assume "\<not> i < 0" "\<not> j < 0"
    then show ?thesis using eq nn[of "nat i" "nat j"] by (simp add: Sprintf_d_def)
  qed
qed

subsection \<open>Runs of the handler on the concrete requests\<close>

lemma handler_sample:
  "generateProofHandler sample_env sample_reads (NewProofCache 1000 Hour) (Bound sample_request) =
     ((200, ProofBody \<lparr>ProofResponse.Proof = ''groth16-proof'',
                       ProofResponse.PublicInputs =
                         [''1000000'', ''12345678901234567890123456789012'',
                          ''98765432109876543210987654321098'', ''60'', ''1700000000''],
                       GenerationTime = 120\<rparr>),
      warm_cache,
      [CallPreVerifySignature, CallNewWitness, CallProve, CallPublic, CallVerify, CallMarshal])"
  by (simp add: eval_defs request_defs surroundings_defs)

lemma handler_sample_rejected:
  "generateProofHandler reject_env sample_reads (NewProofCache 1000 Hour) (Bound sample_request) =
     ((500, ErrorBody ''generated proof is invalid''), NewProofCache 1000 Hour,
      [CallPreVerifySignature, CallNewWitness, CallProve, CallPublic, CallVerify])"
  by (simp add: eval_defs request_defs surroundings_defs)

subsection \<open>The sanity check\<close>

text \<open>
  \<^bold>\<open>C2.\<close> Every freshly generated proof is verified before it is returned or cached.
  For a cache the service can reach and any run of the handler on it:
  \<^item> a success response that carries a newly generated proof (the prover was called)
    carries the serialization of a proof on which \<^verbatim>\<open>groth16.Verify\<close> succeeded against
    the public part of the witness it was proved from;
  \<^item> every success response, served from the cache or not, carries a proof that passed
    the sanity check;
  \<^item> every entry of the cache after the run holds a proof that passed the sanity check;
  \<^item> if the verification of the fresh proof fails, the response is the 500 error
    \<open>"generated proof is invalid"\<close>, without the proof, and the cache is left as it was.
\<close>

theorem sanity_check_guards_response_and_cache:
  assumes reach: "reachable e pc"
    and run: "generateProofHandler e rd pc pl = ((st, b), pc', tr)"
  shows "(st = 200 \<and> CallProve \<in> set tr \<longrightarrow>
            (\<exists>req witness proof publicWitness resp.
               pl = Bound req \<and> NewWitness e (assignment req) = Some witness \<and>
               groth16_Prove e witness (entropy rd) = Some proof \<and>
               witness_Public e witness = Some publicWitness \<and>
               groth16_Verify e proof publicWitness \<and>
               json_Marshal e proof = Some (ProofResponse.Proof resp) \<and> b = ProofBody resp)) \<and>
         (st = 200 \<longrightarrow> (\<exists>resp. b = ProofBody resp \<and> sanity_verified e (ProofResponse.Proof resp))) \<and>
         all_verified e pc' \<and>
         (\<forall>req witness proof publicWitness.
            pl = Bound req \<and> validateProofRequest (Unix (validateNow rd)) req = None \<and>
            fst (Get e (getNow rd) pc req) = None \<and> preVerifySignature e req = None \<and>
            NewWitness e (assignment req) = Some witness \<and>
            groth16_Prove e witness (entropy rd) = Some proof \<and>
            witness_Public e witness = Some publicWitness \<and>
            groth16_Verify e proof publicWitness = False \<longrightarrow>
            st = 500 \<and> b = ErrorBody ''generated proof is invalid'' \<and> pc' = pc)"
proof -
  have inv: "all_verified e pc" using reach by (rule reachable_all_verified)
  have A: "st = 200 \<and> CallProve \<in> set tr \<longrightarrow>
            (\<exists>req witness proof publicWitness resp.
               pl = Bound req \<and> NewWitness e (assignment req) = Some witness \<and>
               groth16_Prove e witness (entropy rd) = Some proof \<and>
               witness_Public e witness = Some publicWitness \<and>
               groth16_Verify e proof publicWitness \<and>
               json_Marshal e proof = Some (ProofResponse.Proof resp) \<and> b = ProofBody resp)"
  proof (intro impI, elim conjE)
    assume st: "st = 200" and fresh: "CallProve \<in> set tr"
    from handler_fresh_200[OF run[unfolded st] fresh]
    obtain req witness pf publicWitness proofBytes where
      h: "pl = Bound req" "NewWitness e (assignment req) = Some witness"
        "groth16_Prove e witness (entropy rd) = Some pf"
        "witness_Public e witness = Some publicWitness"
        "groth16_Verify e pf publicWitness"
        "json_Marshal e pf = Some proofBytes"
        "b = ProofBody \<lparr>ProofResponse.Proof = proofBytes,
                          ProofResponse.PublicInputs = publicInputs req,
                          GenerationTime = Milliseconds (time_Sub (doneNow rd) (startTime rd))\<rparr>"
      by blast
    show "\<exists>req witness proof publicWitness resp.
               pl = Bound req \<and> NewWitness e (assignment req) = Some witness \<and>
               groth16_Prove e witness (entropy rd) = Some proof \<and>
               witness_Public e witness = Some publicWitness \<and>
               groth16_Verify e proof publicWitness \<and>
               json_Marshal e proof = Some (ProofResponse.Proof resp) \<and> b = ProofBody resp"
      apply (rule exI[of _ req], rule exI[of _ witness], rule exI[of _ pf],
          rule exI[of _ publicWitness])
      apply (rule exI[of _ "\<lparr>ProofResponse.Proof = proofBytes,
                          ProofResponse.PublicInputs = publicInputs req,
                          GenerationTime = Milliseconds (time_Sub (doneNow rd) (startTime rd))\<rparr>"])
      using h by simp
  qed
  have B: "st = 200 \<longrightarrow> (\<exists>resp. b = ProofBody resp \<and> sanity_verified e (ProofResponse.Proof resp))"
    using handler_200_verified[OF inv] run by blast
  have C: "all_verified e pc'"
    using handler_all_verified[OF inv, of rd pl] run by simp
  have D: "\<forall>req witness proof publicWitness.
            pl = Bound req \<and> validateProofRequest (Unix (validateNow rd)) req = None \<and>
            fst (Get e (getNow rd) pc req) = None \<and> preVerifySignature e req = None \<and>
            NewWitness e (assignment req) = Some witness \<and>
            groth16_Prove e witness (entropy rd) = Some proof \<and>
            witness_Public e witness = Some publicWitness \<and>
            groth16_Verify e proof publicWitness = False \<longrightarrow>
            st = 500 \<and> b = ErrorBody ''generated proof is invalid'' \<and> pc' = pc"
  proof (intro allI impI, elim conjE)
    fix req witness "proof" publicWitness
    assume h: "pl = Bound req" "validateProofRequest (Unix (validateNow rd)) req = None"
      "fst (Get e (getNow rd) pc req) = None" "preVerifySignature e req = None"
      "NewWitness e (assignment req) = Some witness"
      "groth16_Prove e witness (entropy rd) = Some proof"
      "witness_Public e witness = Some publicWitness"
      "groth16_Verify e proof publicWitness = False"
    from handler_verify_fails[OF h(2-8)] run h(1)
    show "st = 500 \<and> b = ErrorBody ''generated proof is invalid'' \<and> pc' = pc" by simp
  qed
  from A B C D show ?thesis by blast
qed


theorem sanity_check_guards_response_and_cache_witness:
  "reachable sample_env (NewProofCache 1000 Hour) \<and>
   generateProofHandler sample_env sample_reads (NewProofCache 1000 Hour) (Bound sample_request) =
     ((200, ProofBody \<lparr>ProofResponse.Proof = ''groth16-proof'',
                       ProofResponse.PublicInputs =
                         [''1000000'', ''12345678901234567890123456789012'',
                          ''98765432109876543210987654321098'', ''60'', ''1700000000''],
                       GenerationTime = 120\<rparr>),
      warm_cache,
      [CallPreVerifySignature, CallNewWitness, CallProve, CallPublic, CallVerify, CallMarshal]) \<and>
   sanity_verified sample_env ''groth16-proof'' \<and>
   all_verified sample_env warm_cache \<and>
   reachable reject_env (NewProofCache 1000 Hour) \<and>
   groth16_Verify reject_env ''groth16-proof'' [] = False \<and>
   generateProofHandler reject_env sample_reads (NewProofCache 1000 Hour) (Bound sample_request) =
     ((500, ErrorBody ''generated proof is invalid''), NewProofCache 1000 Hour,
      [CallPreVerifySignature, CallNewWitness, CallProve, CallPublic, CallVerify])"
  using sanity_check_guards_response_and_cache[OF reachable.start handler_sample]
    sanity_check_guards_response_and_cache[OF reachable.start handler_sample_rejected]
    handler_sample handler_sample_rejected reachable.start[of sample_env 1000 Hour]
    reachable.start[of reject_env 1000 Hour]
  by (simp add: reject_env_def sample_env_def)

subsection \<open>Failures of the witness and of the prover\<close>

text \<open>
  \<^bold>\<open>C4\<close> (as amended)\<^bold>\<open>.\<close> When a request has passed validation, missed the cache and passed
  the signature pre-verification, and \<^verbatim>\<open>frontend.NewWitness\<close> or \<^verbatim>\<open>groth16.Prove\<close>
  fails (the prover is where unsatisfied constraints surface), the client receives a
  500 response with the message \<open>"witness creation failed"\<close> or
  \<open>"proof generation failed"\<close>, and the cache is unchanged.
\<close>

theorem prover_failure_is_internal_error:
  assumes valid: "validateProofRequest (Unix (validateNow rd)) req = None"
    and miss: "fst (Get e (getNow rd) pc req) = None"
    and pre: "preVerifySignature e req = None"
    and fail: "NewWitness e (assignment req) = None \<or>
               (\<exists>witness. NewWitness e (assignment req) = Some witness \<and>
                          groth16_Prove e witness (entropy rd) = None)"
  shows "generateProofHandler e rd pc (Bound req) =
           ((500, ErrorBody (if NewWitness e (assignment req) = None
                             then ''witness creation failed'' else ''proof generation failed'')),
            pc,
            (if NewWitness e (assignment req) = None
             then [CallPreVerifySignature, CallNewWitness]
             else [CallPreVerifySignature, CallNewWitness, CallProve]))"
  unfolding handler_miss[OF valid miss] using pre fail by auto

lemma handler_sample_unsat:
  "generateProofHandler unsat_env sample_reads (NewProofCache 1000 Hour) (Bound sample_request) =
     ((500, ErrorBody ''proof generation failed''), NewProofCache 1000 Hour,
      [CallPreVerifySignature, CallNewWitness, CallProve])"
  by (simp add: eval_defs request_defs surroundings_defs)

lemma sample_valid:
  "validateProofRequest (Unix (validateNow sample_reads)) sample_request = None"
  by (simp add: eval_defs request_defs surroundings_defs)

lemma second_valid:
  "validateProofRequest (Unix (validateNow later_reads)) second_request = None"
  by (simp add: eval_defs request_defs surroundings_defs)

theorem prover_failure_is_internal_error_witness:
  "validateProofRequest (Unix (validateNow sample_reads)) sample_request = None \<and>
   fst (Get unsat_env (getNow sample_reads) (NewProofCache 1000 Hour) sample_request) = None \<and>
   preVerifySignature unsat_env sample_request = None \<and>
   NewWitness unsat_env (assignment sample_request) = Some (assignment sample_request) \<and>
   groth16_Prove unsat_env (assignment sample_request) (entropy sample_reads) = None \<and>
   generateProofHandler unsat_env sample_reads (NewProofCache 1000 Hour) (Bound sample_request) =
     ((500, ErrorBody ''proof generation failed''), NewProofCache 1000 Hour,
      [CallPreVerifySignature, CallNewWitness, CallProve])"
proof -
  have v: "validateProofRequest (Unix (validateNow sample_reads)) sample_request = None"
    by (rule sample_valid)
  have m: "fst (Get unsat_env (getNow sample_reads) (NewProofCache 1000 Hour) sample_request) = None"
    by (simp add: Get_def NewProofCache_def Let_def)
  have p: "preVerifySignature unsat_env sample_request = None"
    by (simp add: eval_defs request_defs surroundings_defs)
  have w: "NewWitness unsat_env (assignment sample_request) = Some (assignment sample_request)"
    by (simp add: surroundings_defs)
  have g: "groth16_Prove unsat_env (assignment sample_request) (entropy sample_reads) = None"
    by (simp add: surroundings_defs)
  have f: "NewWitness unsat_env (assignment sample_request) = None \<or>
           (\<exists>witness. NewWitness unsat_env (assignment sample_request) = Some witness \<and>
                      groth16_Prove unsat_env witness (entropy sample_reads) = None)"
    using w g by simp
  from prover_failure_is_internal_error[OF v m p f] v m p w g show ?thesis by simp
qed

text \<open>
  \<^bold>\<open>C4\<close> as stated fails: the claim has the client receive a 400 response with the
  message \<open>"invalid payment proof inputs"\<close>. For \<open>sample_request\<close>, valid and
  pre-verified, and a prover that finds the constraints unsatisfied, the response is
  500 \<open>"proof generation failed"\<close>.
\<close>

theorem unsatisfiable_witness_is_not_400:
  "validateProofRequest (Unix (validateNow sample_reads)) sample_request = None \<and>
   preVerifySignature unsat_env sample_request = None \<and>
   groth16_Prove unsat_env (assignment sample_request) (entropy sample_reads) = None \<and>
   fst (generateProofHandler unsat_env sample_reads (NewProofCache 1000 Hour) (Bound sample_request))
     = (500, ErrorBody ''proof generation failed'') \<and>
   fst (generateProofHandler unsat_env sample_reads (NewProofCache 1000 Hour) (Bound sample_request))
     \<noteq> (400, ErrorBody ''invalid payment proof inputs'')"
  by (simp add: handler_sample_unsat sample_valid)
     (simp add: eval_defs request_defs surroundings_defs)

subsection \<open>Cache hits\<close>

lemma generateCacheKey_eq:
  "ProofRequest.MinAmount r2 = ProofRequest.MinAmount r1 \<Longrightarrow> RecipientKey e r2 = RecipientKey e r1 \<Longrightarrow>
   ProofRequest.MaxBlockAge r2 = ProofRequest.MaxBlockAge r1 \<Longrightarrow>
   generateCacheKey e r2 = generateCacheKey e r1"
  by (simp add: generateCacheKey_def)

lemma handler_cached:
  assumes valid: "validateProofRequest (Unix (validateNow rd)) req = None"
    and hit: "map_of (cache pc) (generateCacheKey e req) = Some cached"
    and live: "time_Sub (getNow rd) (GeneratedAt cached) \<le> ttl pc"
  shows "generateProofHandler e rd pc (Bound req) =
           ((200, ProofBody \<lparr>ProofResponse.Proof = CachedProof.Proof cached,
                             ProofResponse.PublicInputs = CachedProof.PublicInputs cached,
                             GenerationTime = 0\<rparr>),
            pc\<lparr>cache := AList.update (generateCacheKey e req)
                    (cached\<lparr>AccessCount := wrap64 (AccessCount cached + 1)\<rparr>) (cache pc)\<rparr>,
            [])"
  by (rule handler_hit[OF valid Get_hit[OF hit live]])

lemma handler_after_store:
  assumes first: "generateProofHandler e rd1 pc (Bound r1) = ((200, ProofBody resp1), pc1, tr1)"
    and fresh: "CallProve \<in> set tr1"
    and same: "ProofRequest.MinAmount r2 = ProofRequest.MinAmount r1"
      "RecipientKey e r2 = RecipientKey e r1"
      "ProofRequest.MaxBlockAge r2 = ProofRequest.MaxBlockAge r1"
    and valid: "validateProofRequest (Unix (validateNow rd2)) r2 = None"
    and live: "time_Sub (getNow rd2) (setNow rd1) \<le> ttl pc"
  shows "\<exists>pc2. generateProofHandler e rd2 pc1 (Bound r2) =
           ((200, ProofBody (resp1\<lparr>GenerationTime := 0\<rparr>)), pc2, []) \<and>
         ProofResponse.PublicInputs resp1 = publicInputs r1"
proof -
  from handler_fresh_200[OF first fresh]
  have pc1: "pc1 = Set e (evictNow rd1) (setNow rd1) pc r1 resp1"
    and pub: "ProofResponse.PublicInputs resp1 = publicInputs r1"
    by auto
  define cached where "cached =
     \<lparr>CachedProof.Proof = ProofResponse.Proof resp1,
      CachedProof.PublicInputs = ProofResponse.PublicInputs resp1,
      GeneratedAt = setNow rd1, AccessCount = 1\<rparr>"
  have key: "generateCacheKey e r2 = generateCacheKey e r1"
    using same by (rule generateCacheKey_eq)
  have hit: "map_of (cache pc1) (generateCacheKey e r2) = Some cached"
    unfolding key pc1 cached_def by (rule Set_lookup)
  have live': "time_Sub (getNow rd2) (GeneratedAt cached) \<le> ttl pc1"
    using live by (simp add: cached_def pc1 Set_ttl)
  from handler_cached[OF valid hit live'] pub show ?thesis
    by (simp add: cached_def)
qed

text \<open>
  \<^bold>\<open>C5\<close> (as amended)\<^bold>\<open>.\<close> Cache idempotence. Let a first request be answered with a
  freshly generated proof, and let a second request agree with it on \<^verbatim>\<open>minAmount\<close>,
  \<^verbatim>\<open>recipientKey\<close> and \<^verbatim>\<open>maxBlockAge\<close>, pass \<^verbatim>\<open>validateProofRequest\<close>, and be looked up
  no later than the TTL after the first was stored, in the cache the first left. Whatever
  its private fields are, the second request receives the first request's proof and
  public inputs with \<^verbatim>\<open>generationTimeMs\<close> 0, and the handler makes no library call: no
  pre-verification, no witness, no proving.
\<close>

theorem cache_idempotence:
  assumes first: "generateProofHandler e rd1 pc (Bound r1) = ((200, ProofBody resp1), pc1, tr1)"
    and fresh: "CallProve \<in> set tr1"
    and same: "ProofRequest.MinAmount r2 = ProofRequest.MinAmount r1"
      "RecipientKey e r2 = RecipientKey e r1"
      "ProofRequest.MaxBlockAge r2 = ProofRequest.MaxBlockAge r1"
    and valid: "validateProofRequest (Unix (validateNow rd2)) r2 = None"
    and live: "time_Sub (getNow rd2) (setNow rd1) \<le> ttl pc"
  shows "\<exists>pc2. generateProofHandler e rd2 pc1 (Bound r2) =
           ((200, ProofBody (resp1\<lparr>GenerationTime := 0\<rparr>)), pc2, [])"
  using handler_after_store[OF first fresh same valid live] by blast

lemma second_same_key_fields:
  "ProofRequest.MinAmount second_request = ProofRequest.MinAmount sample_request"
  "RecipientKey sample_env second_request = RecipientKey sample_env sample_request"
  "ProofRequest.MaxBlockAge second_request = ProofRequest.MaxBlockAge sample_request"
  by (simp_all add: request_defs surroundings_defs)

lemma later_within_ttl:
  "time_Sub (getNow later_reads) (setNow sample_reads) \<le> ttl (NewProofCache 1000 Hour)"
  by (simp add: eval_defs surroundings_defs)

theorem cache_idempotence_witness:
  "generateProofHandler sample_env sample_reads (NewProofCache 1000 Hour) (Bound sample_request) =
     ((200, ProofBody \<lparr>ProofResponse.Proof = ''groth16-proof'',
                       ProofResponse.PublicInputs =
                         [''1000000'', ''12345678901234567890123456789012'',
                          ''98765432109876543210987654321098'', ''60'', ''1700000000''],
                       GenerationTime = 120\<rparr>),
      warm_cache,
      [CallPreVerifySignature, CallNewWitness, CallProve, CallPublic, CallVerify, CallMarshal]) \<and>
   ProofRequest.ActualAmount second_request \<noteq> ProofRequest.ActualAmount sample_request \<and>
   ProofRequest.SenderKeyX second_request \<noteq> ProofRequest.SenderKeyX sample_request \<and>
   ProofRequest.PaymentTime second_request \<noteq> ProofRequest.PaymentTime sample_request \<and>
   validateProofRequest (Unix (validateNow later_reads)) second_request = None \<and>
   (\<exists>pc2. generateProofHandler sample_env later_reads warm_cache (Bound second_request) =
      ((200, ProofBody \<lparr>ProofResponse.Proof = ''groth16-proof'',
                        ProofResponse.PublicInputs =
                          [''1000000'', ''12345678901234567890123456789012'',
                           ''98765432109876543210987654321098'', ''60'', ''1700000000''],
                        GenerationTime = 0\<rparr>),
       pc2, []))"
proof -
  have c: "CallProve \<in> set [CallPreVerifySignature, CallNewWitness, CallProve, CallPublic,
                             CallVerify, CallMarshal]" by simp
  have p: "ProofRequest.ActualAmount second_request \<noteq> ProofRequest.ActualAmount sample_request"
    "ProofRequest.SenderKeyX second_request \<noteq> ProofRequest.SenderKeyX sample_request"
    "ProofRequest.PaymentTime second_request \<noteq> ProofRequest.PaymentTime sample_request"
    by (simp_all add: request_defs)
  have "\<exists>pc2. generateProofHandler sample_env later_reads warm_cache (Bound second_request) =
      ((200, ProofBody \<lparr>ProofResponse.Proof = ''groth16-proof'',
                        ProofResponse.PublicInputs =
                          [''1000000'', ''12345678901234567890123456789012'',
                           ''98765432109876543210987654321098'', ''60'', ''1700000000''],
                        GenerationTime = 0\<rparr>),
       pc2, [])"
    using cache_idempotence[OF handler_sample c second_same_key_fields second_valid
        later_within_ttl]
    by simp
  then show ?thesis
    using handler_sample second_valid p by blast
qed

text \<open>
  \<^bold>\<open>C5\<close> as stated fails: the claim has any two requests with the same public key-fields,
  processed within the TTL, both receive a proof. Validation runs before the cache
  lookup and checks the private fields and both timestamps against the server's clock.
  With the entry of \<open>sample_request\<close> live in \<open>warm_cache\<close>: \<open>second_request\<close>, handled
  400 seconds after the first, is answered 400 \<open>"currentTime must be within last 5 minutes"\<close>,
  and \<open>zero_amount_request\<close>, handled five seconds after the first, is answered 400
  \<open>"actualAmount must be positive"\<close>. Nor does a first request receive a proof, or leave
  an entry, when its signature is not accepted.
\<close>

theorem same_key_fields_rejected_within_ttl:
  "ProofRequest.MinAmount second_request = ProofRequest.MinAmount sample_request \<and>
   RecipientKey sample_env second_request = RecipientKey sample_env sample_request \<and>
   ProofRequest.MaxBlockAge second_request = ProofRequest.MaxBlockAge sample_request \<and>
   ProofRequest.ActualAmount second_request \<noteq> ProofRequest.ActualAmount sample_request \<and>
   generateProofHandler sample_env sample_reads (NewProofCache 1000 Hour) (Bound sample_request) =
     ((200, ProofBody \<lparr>ProofResponse.Proof = ''groth16-proof'',
                       ProofResponse.PublicInputs =
                         [''1000000'', ''12345678901234567890123456789012'',
                          ''98765432109876543210987654321098'', ''60'', ''1700000000''],
                       GenerationTime = 120\<rparr>),
      warm_cache,
      [CallPreVerifySignature, CallNewWitness, CallProve, CallPublic, CallVerify, CallMarshal]) \<and>
   map_of (cache warm_cache) (generateCacheKey sample_env second_request) =
     Some \<lparr>CachedProof.Proof = ''groth16-proof'',
           CachedProof.PublicInputs =
             [''1000000'', ''12345678901234567890123456789012'',
              ''98765432109876543210987654321098'', ''60'', ''1700000000''],
           GeneratedAt = 1700000000120000200, AccessCount = 1\<rparr> \<and>
   time_Sub (getNow stale_reads) 1700000000120000200 \<le> ttl warm_cache \<and>
   generateProofHandler sample_env stale_reads warm_cache (Bound second_request) =
     ((400, ErrorBody ''currentTime must be within last 5 minutes''), warm_cache, []) \<and>
   generateCacheKey sample_env zero_amount_request = generateCacheKey sample_env sample_request \<and>
   time_Sub (getNow later_reads) 1700000000120000200 \<le> ttl warm_cache \<and>
   generateProofHandler sample_env later_reads warm_cache (Bound zero_amount_request) =
     ((400, ErrorBody ''actualAmount must be positive''), warm_cache, []) \<and>
   generateProofHandler sample_env sample_reads (NewProofCache 1000 Hour) (Bound second_request) =
     ((400, ErrorBody ''Invalid signature: invalid EdDSA signature''), NewProofCache 1000 Hour,
      [CallPreVerifySignature])"
proof -
  have a: "ProofRequest.MinAmount second_request = ProofRequest.MinAmount sample_request"
    "RecipientKey sample_env second_request = RecipientKey sample_env sample_request"
    "ProofRequest.MaxBlockAge second_request = ProofRequest.MaxBlockAge sample_request"
    by (rule second_same_key_fields)+
  have b: "ProofRequest.ActualAmount second_request \<noteq> ProofRequest.ActualAmount sample_request"
    by (simp add: request_defs)
  have c: "time_Sub (getNow stale_reads) 1700000000120000200 \<le> ttl warm_cache"
    "time_Sub (getNow later_reads) 1700000000120000200 \<le> ttl warm_cache"
    by (simp_all add: eval_defs surroundings_defs)
  have d: "generateProofHandler sample_env stale_reads warm_cache (Bound second_request) =
     ((400, ErrorBody ''currentTime must be within last 5 minutes''), warm_cache, [])"
    by (simp add: eval_defs request_defs surroundings_defs)
  have k: "generateCacheKey sample_env zero_amount_request = generateCacheKey sample_env sample_request"
    by (simp add: generateCacheKey_def request_defs surroundings_defs)
  have f: "generateProofHandler sample_env later_reads warm_cache (Bound zero_amount_request) =
     ((400, ErrorBody ''actualAmount must be positive''), warm_cache, [])"
    by (simp add: eval_defs request_defs surroundings_defs)
  have g: "generateProofHandler sample_env sample_reads (NewProofCache 1000 Hour) (Bound second_request) =
     ((400, ErrorBody ''Invalid signature: invalid EdDSA signature''), NewProofCache 1000 Hour,
      [CallPreVerifySignature])"
    by (simp add: eval_defs request_defs surroundings_defs)
  have l: "map_of (cache warm_cache) (generateCacheKey sample_env second_request) =
     Some \<lparr>CachedProof.Proof = ''groth16-proof'',
           CachedProof.PublicInputs =
             [''1000000'', ''12345678901234567890123456789012'',
              ''98765432109876543210987654321098'', ''60'', ''1700000000''],
           GeneratedAt = 1700000000120000200, AccessCount = 1\<rparr>"
    by (simp add: eval_defs request_defs surroundings_defs)
  show ?thesis
    using a b c d k f g l handler_sample by blast
qed

text \<open>
  \<^bold>\<open>C8\<close> (as amended)\<^bold>\<open>.\<close> A cache hit bypasses the signature pre-verification. For every
  request that passes validation and whose key has an entry that has not expired, the
  handler returns the cached proof with status 200 and \<^verbatim>\<open>generationTimeMs\<close> 0 and makes
  no library call, whatever \<^verbatim>\<open>preVerifySignature\<close> would have said of its signature.
\<close>

theorem cache_hit_skips_pre_verification:
  assumes valid: "validateProofRequest (Unix (validateNow rd)) req = None"
    and hit: "map_of (cache pc) (generateCacheKey e req) = Some cached"
    and live: "time_Sub (getNow rd) (GeneratedAt cached) \<le> ttl pc"
  shows "\<exists>pc'. generateProofHandler e rd pc (Bound req) =
           ((200, ProofBody \<lparr>ProofResponse.Proof = CachedProof.Proof cached,
                             ProofResponse.PublicInputs = CachedProof.PublicInputs cached,
                             GenerationTime = 0\<rparr>),
            pc', [])"
  using handler_cached[OF valid hit live] by blast

lemma warm_cache_lookup_second:
  "map_of (cache warm_cache) (generateCacheKey sample_env second_request) =
     Some \<lparr>CachedProof.Proof = ''groth16-proof'',
           CachedProof.PublicInputs =
             [''1000000'', ''12345678901234567890123456789012'',
              ''98765432109876543210987654321098'', ''60'', ''1700000000''],
           GeneratedAt = 1700000000120000200, AccessCount = 1\<rparr>"
  by (simp add: eval_defs request_defs surroundings_defs)

theorem cache_hit_skips_pre_verification_witness:
  "validateProofRequest (Unix (validateNow later_reads)) second_request = None \<and>
   preVerifySignature sample_env second_request = Some ''invalid EdDSA signature'' \<and>
   (\<exists>pc'. generateProofHandler sample_env later_reads warm_cache (Bound second_request) =
      ((200, ProofBody \<lparr>ProofResponse.Proof = ''groth16-proof'',
                        ProofResponse.PublicInputs =
                          [''1000000'', ''12345678901234567890123456789012'',
                           ''98765432109876543210987654321098'', ''60'', ''1700000000''],
                        GenerationTime = 0\<rparr>),
       pc', []))"
proof -
  have live: "time_Sub (getNow later_reads)
      (GeneratedAt \<lparr>CachedProof.Proof = ''groth16-proof'',
           CachedProof.PublicInputs =
             [''1000000'', ''12345678901234567890123456789012'',
              ''98765432109876543210987654321098'', ''60'', ''1700000000''],
           GeneratedAt = 1700000000120000200, AccessCount = 1\<rparr>) \<le> ttl warm_cache"
    by (simp add: eval_defs surroundings_defs)
  have inv: "preVerifySignature sample_env second_request = Some ''invalid EdDSA signature''"
    by (simp add: eval_defs request_defs surroundings_defs)
  have "\<exists>pc'. generateProofHandler sample_env later_reads warm_cache (Bound second_request) =
      ((200, ProofBody \<lparr>ProofResponse.Proof = ''groth16-proof'',
                        ProofResponse.PublicInputs =
                          [''1000000'', ''12345678901234567890123456789012'',
                           ''98765432109876543210987654321098'', ''60'', ''1700000000''],
                        GenerationTime = 0\<rparr>),
       pc', [])"
    using cache_hit_skips_pre_verification[OF second_valid warm_cache_lookup_second live]
    by simp
  then show ?thesis using second_valid inv by blast
qed

text \<open>
  \<^bold>\<open>C8\<close> as stated fails: the claim has a request with an empty-valued signature succeed
  whenever its public fields hit the cache. Validation runs before the cache lookup:
  \<open>empty_signature_request\<close>, whose key has a live entry in \<open>warm_cache\<close>, is answered
  400 \<open>"signatureR8x is required"\<close>.
\<close>

theorem empty_signature_rejected_despite_cache_hit:
  "map_of (cache warm_cache) (generateCacheKey sample_env empty_signature_request) =
     Some \<lparr>CachedProof.Proof = ''groth16-proof'',
           CachedProof.PublicInputs =
             [''1000000'', ''12345678901234567890123456789012'',
              ''98765432109876543210987654321098'', ''60'', ''1700000000''],
           GeneratedAt = 1700000000120000200, AccessCount = 1\<rparr> \<and>
   time_Sub (getNow later_reads) 1700000000120000200 \<le> ttl warm_cache \<and>
   ProofRequest.SignatureR8X empty_signature_request = [] \<and>
   generateProofHandler sample_env later_reads warm_cache (Bound empty_signature_request) =
     ((400, ErrorBody ''signatureR8x is required''), warm_cache, [])"
  by (simp add: eval_defs request_defs surroundings_defs)

text \<open>Any request with an empty signature field is answered 400 before the cache is
  consulted, whatever the cache holds.\<close>

lemma empty_signature_field_rejected:
  assumes "ProofRequest.SignatureR8X req = [] \<or> ProofRequest.SignatureR8Y req = [] \<or>
           ProofRequest.SignatureS req = []"
  shows "\<exists>err. generateProofHandler e rd pc (Bound req) = ((400, ErrorBody err), pc, [])"
proof -
  have "validateProofRequest (Unix (validateNow rd)) req \<noteq> None"
    using assms unfolding validateProofRequest_def by (auto split: if_splits)
  then obtain err where "validateProofRequest (Unix (validateNow rd)) req = Some err"
    by blast
  then show ?thesis using handler_invalid by blast
qed

text \<open>
  \<^bold>\<open>C9.\<close> The cache key ignores \<^verbatim>\<open>currentTime\<close>: two requests that agree on
  \<^verbatim>\<open>minAmount\<close>, \<^verbatim>\<open>recipientKey\<close> and \<^verbatim>\<open>maxBlockAge\<close> have the same key. If they differ
  in \<^verbatim>\<open>currentTime\<close>, the first was answered with a fresh proof, and the second is valid
  and arrives within the TTL, then the second is served from the cache the public inputs
  of the first, whose fifth entry is the first request's \<^verbatim>\<open>currentTime\<close> and not its own.
\<close>

theorem cache_key_ignores_currentTime:
  "(ProofRequest.MinAmount r2 = ProofRequest.MinAmount r1 \<and>
    RecipientKey e r2 = RecipientKey e r1 \<and>
    ProofRequest.MaxBlockAge r2 = ProofRequest.MaxBlockAge r1 \<longrightarrow>
      generateCacheKey e r2 = generateCacheKey e r1) \<and>
   (ProofRequest.MinAmount r2 = ProofRequest.MinAmount r1 \<and>
    RecipientKey e r2 = RecipientKey e r1 \<and>
    ProofRequest.MaxBlockAge r2 = ProofRequest.MaxBlockAge r1 \<and>
    ProofRequest.CurrentTime r2 \<noteq> ProofRequest.CurrentTime r1 \<and>
    generateProofHandler e rd1 pc (Bound r1) = ((200, ProofBody resp1), pc1, tr1) \<and>
    CallProve \<in> set tr1 \<and>
    validateProofRequest (Unix (validateNow rd2)) r2 = None \<and>
    time_Sub (getNow rd2) (setNow rd1) \<le> ttl pc \<longrightarrow>
      (\<exists>resp2 pc2.
         generateProofHandler e rd2 pc1 (Bound r2) = ((200, ProofBody resp2), pc2, []) \<and>
         ProofResponse.PublicInputs resp2 = publicInputs r1 \<and>
         ProofResponse.PublicInputs resp2 ! 4 = Sprintf_d (ProofRequest.CurrentTime r1) \<and>
         ProofResponse.PublicInputs resp2 ! 4 \<noteq> Sprintf_d (ProofRequest.CurrentTime r2)))"
proof (intro conjI impI)
  assume "ProofRequest.MinAmount r2 = ProofRequest.MinAmount r1 \<and>
    RecipientKey e r2 = RecipientKey e r1 \<and>
    ProofRequest.MaxBlockAge r2 = ProofRequest.MaxBlockAge r1"
  then show "generateCacheKey e r2 = generateCacheKey e r1"
    by (elim conjE) (rule generateCacheKey_eq)
next
  assume a: "ProofRequest.MinAmount r2 = ProofRequest.MinAmount r1 \<and>
    RecipientKey e r2 = RecipientKey e r1 \<and>
    ProofRequest.MaxBlockAge r2 = ProofRequest.MaxBlockAge r1 \<and>
    ProofRequest.CurrentTime r2 \<noteq> ProofRequest.CurrentTime r1 \<and>
    generateProofHandler e rd1 pc (Bound r1) = ((200, ProofBody resp1), pc1, tr1) \<and>
    CallProve \<in> set tr1 \<and>
    validateProofRequest (Unix (validateNow rd2)) r2 = None \<and>
    time_Sub (getNow rd2) (setNow rd1) \<le> ttl pc"
  from a have first: "generateProofHandler e rd1 pc (Bound r1) = ((200, ProofBody resp1), pc1, tr1)"
    by (elim conjE)
  from a have fresh: "CallProve \<in> set tr1" by (elim conjE)
  from a have same: "ProofRequest.MinAmount r2 = ProofRequest.MinAmount r1"
      "RecipientKey e r2 = RecipientKey e r1"
      "ProofRequest.MaxBlockAge r2 = ProofRequest.MaxBlockAge r1"
    by blast+
  from a have valid: "validateProofRequest (Unix (validateNow rd2)) r2 = None" by (elim conjE)
  from a have live: "time_Sub (getNow rd2) (setNow rd1) \<le> ttl pc" by (elim conjE)
  from a have differ: "ProofRequest.CurrentTime r2 \<noteq> ProofRequest.CurrentTime r1"
    by (elim conjE)
  from handler_after_store[OF first fresh same valid live] obtain pc2 where
    run: "generateProofHandler e rd2 pc1 (Bound r2) =
            ((200, ProofBody (resp1\<lparr>GenerationTime := 0\<rparr>)), pc2, [])"
    and pub: "ProofResponse.PublicInputs resp1 = publicInputs r1"
    by blast
  have ne: "Sprintf_d (ProofRequest.CurrentTime r1) \<noteq> Sprintf_d (ProofRequest.CurrentTime r2)"
    using differ Sprintf_d_inj[of "ProofRequest.CurrentTime r1" "ProofRequest.CurrentTime r2"]
    by auto
  have p1: "ProofResponse.PublicInputs (resp1\<lparr>GenerationTime := 0\<rparr>) = publicInputs r1"
    using pub by simp
  have p2: "publicInputs r1 ! 4 = Sprintf_d (ProofRequest.CurrentTime r1)"
    by (simp add: publicInputs_def)
  have p3: "ProofResponse.PublicInputs (resp1\<lparr>GenerationTime := 0\<rparr>) ! 4
              = Sprintf_d (ProofRequest.CurrentTime r1)"
    by (simp only: p1 p2)
  have p4: "ProofResponse.PublicInputs (resp1\<lparr>GenerationTime := 0\<rparr>) ! 4
              \<noteq> Sprintf_d (ProofRequest.CurrentTime r2)"
    using ne by (simp only: p3 not_False_eq_True)
  show "\<exists>resp2 pc2.
         generateProofHandler e rd2 pc1 (Bound r2) = ((200, ProofBody resp2), pc2, []) \<and>
         ProofResponse.PublicInputs resp2 = publicInputs r1 \<and>
         ProofResponse.PublicInputs resp2 ! 4 = Sprintf_d (ProofRequest.CurrentTime r1) \<and>
         ProofResponse.PublicInputs resp2 ! 4 \<noteq> Sprintf_d (ProofRequest.CurrentTime r2)"
    using run p1 p3 p4 by blast
qed

theorem cache_key_ignores_currentTime_witness:
  "ProofRequest.CurrentTime second_request = 1700000005 \<and>
   ProofRequest.CurrentTime sample_request = 1700000000 \<and>
   generateCacheKey sample_env second_request = generateCacheKey sample_env sample_request \<and>
   (\<exists>resp2 pc2.
      generateProofHandler sample_env later_reads warm_cache (Bound second_request)
        = ((200, ProofBody resp2), pc2, []) \<and>
      ProofResponse.PublicInputs resp2 ! 4 = ''1700000000'')"
proof -
  have c: "CallProve \<in> set [CallPreVerifySignature, CallNewWitness, CallProve, CallPublic,
                             CallVerify, CallMarshal]" by simp
  have t2: "ProofRequest.CurrentTime second_request = 1700000005"
    and t1: "ProofRequest.CurrentTime sample_request = 1700000000"
    by (simp_all add: request_defs)
  have d: "ProofRequest.CurrentTime second_request \<noteq> ProofRequest.CurrentTime sample_request"
    by (simp add: t1 t2)
  have s: "Sprintf_d (ProofRequest.CurrentTime sample_request) = ''1700000000''"
    unfolding t1 by (simp add: eval_defs)
  note inst = cache_key_ignores_currentTime[of second_request sample_request sample_env
      sample_reads "NewProofCache 1000 Hour" _ warm_cache _ later_reads]
  have key: "generateCacheKey sample_env second_request = generateCacheKey sample_env sample_request"
    using inst[THEN conjunct1] second_same_key_fields by blast
  have "\<exists>resp2 pc2.
      generateProofHandler sample_env later_reads warm_cache (Bound second_request)
        = ((200, ProofBody resp2), pc2, []) \<and>
      ProofResponse.PublicInputs resp2 ! 4 = Sprintf_d (ProofRequest.CurrentTime sample_request)"
    using inst[THEN conjunct2, rule_format, OF conjI[OF second_same_key_fields(1)
          conjI[OF second_same_key_fields(2) conjI[OF second_same_key_fields(3)
          conjI[OF d conjI[OF handler_sample conjI[OF c conjI[OF second_valid later_within_ttl]]]]]]]]
    by blast
  then show ?thesis using t1 t2 key unfolding s by blast
qed

end
